theory Spec2Isabelle
  imports Complex_Main "HOL-Library.Sublist" "HOL-Library.Multiset" "HOL-Library.List_Lexorder"
begin

section \<open>Python values\<close>

text \<open>
  A Python \<open>str\<close> is a sequence of Unicode code points: \<open>len\<close>, slicing, \<open>in\<close> and
  \<open>lower\<close> all work on code points, so a string is a list of code points here.
  \<open>ascii\<close> turns an ASCII literal into such a list; a letter beyond ASCII is written
  as its code point (\<open>0xE9\<close> is e-acute, \<open>0xC9\<close> E-acute, \<open>0xE2\<close> a-circumflex,
  \<open>0x153\<close> the oe ligature: the source file holds them precomposed).
\<close>

type_synonym cp = nat
type_synonym pystr = "cp list"

definition ascii :: "string \<Rightarrow> pystr" where
  "ascii s = map of_char s"

text \<open>
  What \<open>json.load\<close> returns. A number keeps its literal, since the program never
  computes with one; a dict is the list of its items in insertion order, each key once.
\<close>

datatype json =
    JNull
  | JBool bool
  | JNum pystr
  | JStr pystr
  | JList "json list"
  | JObj "(pystr \<times> json) list"

text \<open>
  Exceptions are values. The handler of \<open>prepare_timeline_data\<close> catches
  \<open>TypeError\<close>, \<open>ValueError\<close> and \<open>KeyError\<close>; an \<open>AttributeError\<close> or any other
  class (\<open>OtherError\<close>) leaves the function; an exception of a subclass counts as
  its base class. The argument is the message; for exceptions raised by the interpreter
  itself it names the failed operation rather than repeating CPython's wording, which
  no caller inspects.
\<close>

datatype exn =
    TypeError pystr
  | ValueError pystr
  | KeyError pystr
  | AttributeError pystr
  | OtherError pystr

definition and_then :: "exn + 'a \<Rightarrow> ('a \<Rightarrow> exn + 'b) \<Rightarrow> exn + 'b" where
  "and_then m f = (case m of Inl e \<Rightarrow> Inl e | Inr x \<Rightarrow> f x)"

text \<open>
  A \<open>pandas.Timestamp\<close>: nanoseconds since the epoch, and whether it carries a time
  zone. \<open>pd.to_datetime\<close> may also return the null date (\<open>NaT\<close>, or \<open>None\<close> for
  \<open>None\<close>), for which \<open>pd.isna\<close> holds.
\<close>

record timestamp =
  nanos :: int
  tz_aware :: bool

datatype datetime = NaT | Stamp timestamp

text \<open>
  The library functions the program calls but does not define are parameters:
  \<^item> \<open>to_datetime\<close>: \<open>pd.to_datetime\<close> on a date value (the model covers the scalar
    results, a \<open>Timestamp\<close> or a null);
  \<^item> \<open>py_str\<close>: \<open>str(v)\<close> for a value that is not a \<open>str\<close>;
  \<^item> \<open>ucd_lower seen c rest\<close>: the lower-casing of a non-ASCII code point \<open>c\<close> by the
    Unicode character database, which may yield several code points and, for
    capital sigma, looks at the text around it.
\<close>

record pylib =
  to_datetime :: "json \<Rightarrow> exn + datetime"
  py_str :: "json \<Rightarrow> pystr"
  ucd_lower :: "pystr \<Rightarrow> cp \<Rightarrow> pystr \<Rightarrow> pystr"

definition str_of :: "pylib \<Rightarrow> json \<Rightarrow> pystr" where
  "str_of L v = (case v of JStr s \<Rightarrow> s | _ \<Rightarrow> py_str L v)"

definition ascii_lower :: "cp \<Rightarrow> cp" where
  "ascii_lower c = (if 65 \<le> c \<and> c \<le> 90 then c + 32 else c)"

fun lower_from :: "pylib \<Rightarrow> pystr \<Rightarrow> pystr \<Rightarrow> pystr" where
  "lower_from L seen [] = []"
| "lower_from L seen (c # cs) =
     (if c < 128 then [ascii_lower c] else ucd_lower L seen c cs) @ lower_from L (seen @ [c]) cs"

definition lower :: "pylib \<Rightarrow> pystr \<Rightarrow> pystr" where
  "lower L s = lower_from L [] s"

section \<open>categorize_lot\<close>

definition category_keywords :: "(pystr \<times> pystr list) list" where
  "category_keywords =
    [(ascii ''Viande'',
        [ascii ''viande'', ascii ''b'' @ [0x153] @ ascii ''uf'', ascii ''veau'', ascii ''porc'',
         ascii ''agneau'', ascii ''mouton'']),
     (ascii ''Volaille'', [ascii ''volaille'', ascii ''poulet'', ascii ''dinde'']),
     (ascii ''Charcuterie'', [ascii ''charcuterie'']),
     (ascii ''Produits Laitiers'',
        [ascii ''lait'', ascii ''produits laitiers'', ascii ''ovoproduits'']),
     (ascii ''Fruits et L'' @ [0xE9] @ ascii ''gumes'',
        [ascii ''fruits'', ascii ''l'' @ [0xE9] @ ascii ''gumes'', ascii ''aromates'']),
     (ascii ''Surgel'' @ [0xE9] @ ascii ''s'', [ascii ''surgel'' @ [0xE9]]),
     (ascii ''BIO'', [ascii ''bio'']),
     ([0xC9] @ ascii ''picerie'',
        [[0xE9] @ ascii ''picerie'', ascii ''f'' @ [0xE9] @ ascii ''culents'',
         ascii ''p'' @ [0xE2] @ ascii ''tes'', ascii ''riz'', ascii ''condiments'',
         [0xE9] @ ascii ''pices'']),
     (ascii ''Poisson'', [ascii ''poisson'']),
     (ascii ''Boissons'', [ascii ''boisson'']),
     (ascii ''Desserts'',
        [ascii ''dessert'', ascii ''p'' @ [0xE2] @ ascii ''tisserie'', ascii ''compote''])]"

text \<open>
  The loop over \<open>category_keywords.items()\<close>, appending to \<open>categories\<close>;
  \<open>keyword in lot_name\<close> is \<^const>\<open>sublist\<close>.
\<close>

fun categorize_loop :: "pystr \<Rightarrow> (pystr \<times> pystr list) list \<Rightarrow> pystr list \<Rightarrow> pystr list" where
  "categorize_loop lot_name [] categories = categories"
| "categorize_loop lot_name ((category, keywords) # rest) categories =
     categorize_loop lot_name rest
       (if list_ex (\<lambda>keyword. sublist keyword lot_name) keywords
        then categories @ [category] else categories)"

text \<open>Only a \<open>str\<close> has a method \<open>lower\<close> among the values JSON yields.\<close>

definition categorize_lot :: "pylib \<Rightarrow> json \<Rightarrow> exn + pystr list" where
  "categorize_lot L lot_name =
     (case lot_name of
        JStr s \<Rightarrow> Inr (categorize_loop (lower L s) category_keywords [])
      | _ \<Rightarrow> Inl (AttributeError (ascii ''lower'')))"

section \<open>prepare_timeline_data\<close>

text \<open>\<open>item[key]\<close>: a missing key raises \<open>KeyError\<close>, a value that is no dict \<open>TypeError\<close>.\<close>

fun subscript :: "json \<Rightarrow> pystr \<Rightarrow> exn + json" where
  "subscript (JObj kvs) k =
     (case map_of kvs k of Some v \<Rightarrow> Inr v | None \<Rightarrow> Inl (KeyError k))"
| "subscript v k = Inl (TypeError (ascii ''subscript''))"

text \<open>\<open>item.get(key, default)\<close>: only a dict has the method.\<close>

fun py_get :: "json \<Rightarrow> pystr \<Rightarrow> json \<Rightarrow> exn + json" where
  "py_get (JObj kvs) k d = Inr (case map_of kvs k of Some v \<Rightarrow> v | None \<Rightarrow> d)"
| "py_get v k d = Inl (AttributeError (ascii ''get''))"

text \<open>
  \<open>for lot in lots\<close>: a list yields its elements, a string its characters, a dict its
  keys; nothing else is iterable.
\<close>

fun py_iter :: "json \<Rightarrow> exn + json list" where
  "py_iter (JList xs) = Inr xs"
| "py_iter (JStr s) = Inr (map (\<lambda>c. JStr [c]) s)"
| "py_iter (JObj kvs) = Inr (map (\<lambda>kv. JStr (fst kv)) kvs)"
| "py_iter v = Inl (TypeError (ascii ''iter''))"

text \<open>\<open>sep.join(xs)\<close> accepts strings only.\<close>

fun str_items :: "json list \<Rightarrow> exn + pystr list" where
  "str_items [] = Inr []"
| "str_items (JStr s # xs) = and_then (str_items xs) (\<lambda>ss. Inr (s # ss))"
| "str_items (v # xs) = Inl (TypeError (ascii ''join''))"

fun join :: "pystr \<Rightarrow> pystr list \<Rightarrow> pystr" where
  "join sep [] = []"
| "join sep [s] = s"
| "join sep (s # t # ss) = s @ sep @ join sep (t # ss)"

definition py_join :: "pystr \<Rightarrow> json list \<Rightarrow> exn + pystr" where
  "py_join sep xs = and_then (str_items xs) (\<lambda>ss. Inr (join sep ss))"

text \<open>
  \<open>(end_date - today).days\<close>: subtracting a zone-aware from a naive timestamp raises
  \<open>TypeError\<close>; \<open>Timedelta.days\<close> is the floor of the difference in days
  (the difference is taken to lie within the range of a \<open>Timedelta\<close>).
\<close>

definition day_ns :: int where
  "day_ns = 86400000000000"

definition days_between :: "timestamp \<Rightarrow> timestamp \<Rightarrow> exn + int" where
  "days_between end_date today =
     (if tz_aware end_date \<noteq> tz_aware today then Inl (TypeError (ascii ''tz''))
      else Inr ((nanos end_date - nanos today) div day_ns))"

definition En_cours :: pystr where
  "En_cours = ascii ''En cours''"

definition Termine :: pystr where
  "Termine = ascii ''Termin'' @ [0xE9]"

text \<open>
  The value of \<open>Task\<close>. \<open>len\<close>, the slice and the concatenation with a \<open>str\<close> succeed
  together only for a \<open>str\<close>; every other value of \<open>objet\<close> raises an exception the
  handler catches.
\<close>

definition task_title :: "pystr \<Rightarrow> json \<Rightarrow> exn + pystr" where
  "task_title status objet =
     (case objet of
        JStr s \<Rightarrow>
          Inr (ascii ''['' @ status @ ascii ''] '' @
               (if length s > 80 then take 80 s @ ascii ''...'' else s))
      | _ \<Rightarrow> Inl (TypeError (ascii ''objet'')))"

text \<open>
  \<open>all_categories.update(categorize_lot(lot))\<close> for each lot, on a Python \<open>set\<close>.
\<close>

fun update_all :: "pylib \<Rightarrow> json list \<Rightarrow> pystr set \<Rightarrow> exn + pystr set" where
  "update_all L [] all_categories = Inr all_categories"
| "update_all L (lot # lots) all_categories =
     and_then (categorize_lot L lot) (\<lambda>cats. update_all L lots (all_categories \<union> set cats))"

text \<open>
  One row of the data frame. \<open>list(all_categories)\<close> lists each member of the set once,
  in an order Python does not fix, so \<open>Categories\<close> is the multiset of that list.
  (The order on lists that the theory imports serves only to evaluate \<open>mset_set\<close>.)
  \<open>Departments\<close> holds strings only: \<open>", ".join(departments)\<close> has succeeded when the
  row is built.
\<close>

record row =
  Task :: pystr
  Start :: timestamp
  Finish :: timestamp
  Resource :: json
  Department :: pystr
  Departments :: "pystr list"
  Titulaire :: pystr
  Days_Left :: int
  Status :: pystr
  Lots :: json
  Categories :: "pystr multiset"
  URL :: json

text \<open>Lines 56, 58 and 59: the status, the awardees and the departments.\<close>

definition status_of :: "int \<Rightarrow> pystr" where
  "status_of days_left = (if days_left < 0 then Termine else En_cours)"

definition titulaires_of :: "pylib \<Rightarrow> json \<Rightarrow> exn + pystr" where
  "titulaires_of L titulaire =
     (case titulaire of
        JList xs \<Rightarrow> py_join (ascii '', '') xs
      | _ \<Rightarrow> Inr (str_of L titulaire))"

definition departments_of :: "pylib \<Rightarrow> json \<Rightarrow> json list" where
  "departments_of L code_departement =
     (case code_departement of
        JList xs \<Rightarrow> xs
      | _ \<Rightarrow> [JStr (str_of L code_departement)])"

text \<open>
  Lines 55 to 80, once both dates are timestamps, in the order Python evaluates them.
\<close>

definition row_of_item :: "pylib \<Rightarrow> timestamp \<Rightarrow> json \<Rightarrow> timestamp \<Rightarrow> timestamp \<Rightarrow> exn + row" where
  "row_of_item L today item start_date end_date =
     and_then (days_between end_date today) (\<lambda>days_left.
     and_then (subscript item (ascii ''titulaire'')) (\<lambda>titulaire.
     and_then (titulaires_of L titulaire) (\<lambda>titulaires.
     and_then (subscript item (ascii ''code_departement'')) (\<lambda>code_departement.
     and_then (py_get item (ascii ''LOTS'') (JList [])) (\<lambda>lots.
     and_then (py_iter lots) (\<lambda>lot_list.
     and_then (update_all L lot_list {}) (\<lambda>all_categories.
     and_then (subscript item (ascii ''objet'')) (\<lambda>objet.
     and_then (task_title (status_of days_left) objet) (\<lambda>task.
     and_then (subscript item (ascii ''nomacheteur'')) (\<lambda>nomacheteur.
     and_then (str_items (departments_of L code_departement)) (\<lambda>departments.
     and_then (py_get item (ascii ''url_avis'') (JStr [])) (\<lambda>url.
     Inr \<lparr>Task = task, Start = start_date, Finish = end_date, Resource = nomacheteur,
          Department = join (ascii '', '') departments, Departments = departments,
          Titulaire = titulaires, Days_Left = days_left, Status = status_of days_left,
          Lots = lots, Categories = mset_set all_categories, URL = url\<rparr>))))))))))))"

text \<open>
  The body of the \<open>try\<close>: \<open>Inr (Some r)\<close> appends the row \<open>r\<close>, \<open>Inr None\<close> is the
  \<open>continue\<close> after a null date, \<open>Inl e\<close> the exception raised.
\<close>

definition try_body :: "pylib \<Rightarrow> timestamp \<Rightarrow> json \<Rightarrow> exn + row option" where
  "try_body L today item =
     and_then (subscript item (ascii ''date_debut'')) (\<lambda>raw_start.
     and_then (to_datetime L raw_start) (\<lambda>start_date.
     and_then (subscript item (ascii ''date_fin'')) (\<lambda>raw_end.
     and_then (to_datetime L raw_end) (\<lambda>end_date.
       (case (start_date, end_date) of
          (Stamp start_ts, Stamp end_ts) \<Rightarrow>
            and_then (row_of_item L today item start_ts end_ts) (\<lambda>r. Inr (Some r))
        | _ \<Rightarrow> Inr None)))))"

text \<open>\<open>str(e)\<close>: the message, and for a \<open>KeyError\<close> the quoted key.\<close>

fun str_exn :: "exn \<Rightarrow> pystr" where
  "str_exn (KeyError k) = ascii [CHR 0x27] @ k @ ascii [CHR 0x27]"
| "str_exn (TypeError m) = m"
| "str_exn (ValueError m) = m"
| "str_exn (AttributeError m) = m"
| "str_exn (OtherError m) = m"

fun caught :: "exn \<Rightarrow> bool" where
  "caught (TypeError m) = True"
| "caught (ValueError m) = True"
| "caught (KeyError m) = True"
| "caught (AttributeError m) = False"
| "caught (OtherError m) = False"

definition warning_text :: "pylib \<Rightarrow> json \<Rightarrow> exn \<Rightarrow> pystr" where
  "warning_text L idweb e =
     ascii ''Erreur avec l'' @ ascii [CHR 0x27] @ ascii ''entr'' @ [0xE9] @ ascii ''e: '' @
     str_of L idweb @ ascii '' - '' @ str_exn e"

text \<open>
  The \<open>for\<close> loop, on the pair of \<open>timeline_data\<close> and the warnings shown so far by
  \<open>st.warning\<close>. An exception the handler does not catch, or one raised inside the
  handler, ends the function: the result is \<open>Inl\<close>.
\<close>

fun prepare_loop ::
  "pylib \<Rightarrow> timestamp \<Rightarrow> json list \<Rightarrow> row list \<times> pystr list \<Rightarrow> exn + row list \<times> pystr list" where
  "prepare_loop L today [] state = Inr state"
| "prepare_loop L today (item # items) (timeline_data, warnings) =
     (case try_body L today item of
        Inr (Some r) \<Rightarrow> prepare_loop L today items (timeline_data @ [r], warnings)
      | Inr None \<Rightarrow> prepare_loop L today items (timeline_data, warnings)
      | Inl e \<Rightarrow>
          if caught e then
            and_then (py_get item (ascii ''idweb'') (JStr (ascii ''ID inconnu''))) (\<lambda>idweb.
              prepare_loop L today items (timeline_data, warnings @ [warning_text L idweb e]))
          else Inl e)"

definition prepare_timeline_data ::
  "pylib \<Rightarrow> timestamp \<Rightarrow> json list \<Rightarrow> exn + row list \<times> pystr list" where
  "prepare_timeline_data L today data = prepare_loop L today data ([], [])"

section \<open>main: the filters and the statistics\<close>

text \<open>
  A data frame is the list of its rows, or a frame that has lost its columns.
  \<open>df[mask]\<close> with a boolean mask keeps the rows where the mask holds, in order; the
  masks of \<open>isin\<close> and of a comparison are boolean on every frame. The mask that
  \<open>Series.apply\<close> builds is boolean only when the frame has a row: on a frame without
  rows it is an empty series that is not boolean, which \<open>df[...]\<close> takes for an empty
  list of column labels, and the result has neither rows nor columns. Reading a column
  of such a frame raises \<open>KeyError\<close>, which nothing in \<open>main\<close> catches.
\<close>

datatype frame = Rows "row list" | No_columns

fun frame_rows :: "frame \<Rightarrow> row list" where
  "frame_rows (Rows rs) = rs"
| "frame_rows No_columns = []"

fun column :: "pystr \<Rightarrow> frame \<Rightarrow> exn + row list" where
  "column name (Rows rs) = Inr rs"
| "column name No_columns = Inl (KeyError name)"

definition bool_mask :: "(row \<Rightarrow> bool) \<Rightarrow> row list \<Rightarrow> frame" where
  "bool_mask keep rs = Rows (filter keep rs)"

definition apply_mask :: "(row \<Rightarrow> bool) \<Rightarrow> row list \<Rightarrow> frame" where
  "apply_mask keep rs = (if rs = [] then No_columns else Rows (filter keep rs))"

text \<open>
  \<open>isin\<close> and \<open>in\<close> compare with \<open>==\<close>, which is equality on the strings the columns
  hold. \<open>x.split(',')\<close> and \<open>t.strip()\<close> are Python's: \<open>split\<close> cuts at every comma
  (code point 44), \<open>strip\<close> removes the white space at both ends.
\<close>

fun split_from :: "cp \<Rightarrow> pystr \<Rightarrow> pystr \<Rightarrow> pystr list" where
  "split_from sep piece [] = [piece]"
| "split_from sep piece (c # cs) =
     (if c = sep then piece # split_from sep [] cs else split_from sep (piece @ [c]) cs)"

definition py_split :: "cp \<Rightarrow> pystr \<Rightarrow> pystr list" where
  "py_split sep s = split_from sep [] s"

definition is_space :: "cp \<Rightarrow> bool" where
  "is_space c \<longleftrightarrow>
     (9 \<le> c \<and> c \<le> 13) \<or> (28 \<le> c \<and> c \<le> 32) \<or> c = 0x85 \<or> c = 0xA0 \<or> c = 0x1680 \<or>
     (0x2000 \<le> c \<and> c \<le> 0x200A) \<or> c = 0x2028 \<or> c = 0x2029 \<or> c = 0x202F \<or>
     c = 0x205F \<or> c = 0x3000"

definition strip :: "pystr \<Rightarrow> pystr" where
  "strip s = rev (dropWhile is_space (rev (dropWhile is_space s)))"

text \<open>The six widgets of \<open>main\<close>; \<open>status_filter\<close> starts as \<open>["En cours"]\<close>.\<close>

record selection =
  selected_acheteurs :: "json list"
  selected_titulaires :: "pystr list"
  selected_departments :: "pystr list"
  expiration_filter :: pystr
  status_filter :: "pystr list"
  selected_categories :: "pystr list"

definition expiration_options :: "pystr list" where
  "expiration_options =
     [ascii ''Tous les AO'', ascii ''Se termine dans 3 mois'', ascii ''Se termine dans 6 mois'',
      ascii ''Se termine dans 1 an'', ascii ''Se termine dans 1 an et demi'',
      ascii ''Se termine dans 2 ans'']"

text \<open>Lines 217 to 224.\<close>

definition filter_acheteurs :: "json list \<Rightarrow> frame \<Rightarrow> exn + frame" where
  "filter_acheteurs selected filtered_df =
     (if selected \<noteq> []
      then and_then (column (ascii ''Resource'') filtered_df)
             (\<lambda>rs. Inr (bool_mask (\<lambda>r. Resource r \<in> set selected) rs))
      else Inr filtered_df)"

definition filter_titulaires :: "pystr list \<Rightarrow> frame \<Rightarrow> exn + frame" where
  "filter_titulaires selected filtered_df =
     (if selected \<noteq> []
      then and_then (column (ascii ''Titulaire'') filtered_df)
             (\<lambda>rs. Inr (apply_mask
                (\<lambda>r. list_ex (\<lambda>t. strip t \<in> set selected) (py_split 44 (Titulaire r))) rs))
      else Inr filtered_df)"

definition filter_departments :: "pystr list \<Rightarrow> frame \<Rightarrow> exn + frame" where
  "filter_departments selected filtered_df =
     (if selected \<noteq> []
      then and_then (column (ascii ''Departments'') filtered_df)
             (\<lambda>rs. Inr (apply_mask
                (\<lambda>r. list_ex (\<lambda>dept. dept \<in> set selected) (Departments r)) rs))
      else Inr filtered_df)"

text \<open>
  Lines 226 to 236, the chain of \<open>if\<close> and \<open>elif\<close> in the order of the source, on the
  rows of a frame that has its columns.
\<close>

definition filter_expiration :: "pystr \<Rightarrow> row list \<Rightarrow> row list" where
  "filter_expiration expiration filtered_df =
     (if expiration \<noteq> ascii ''Tous les AO'' then
        (if sublist (ascii ''3 mois'') expiration
           then filter (\<lambda>r. Days_Left r \<le> 90) filtered_df
         else if sublist (ascii ''6 mois'') expiration
           then filter (\<lambda>r. Days_Left r \<le> 180) filtered_df
         else if sublist (ascii ''1 an'') expiration
           then filter (\<lambda>r. Days_Left r \<le> 365) filtered_df
         else if sublist (ascii ''1 an et demi'') expiration
           then filter (\<lambda>r. Days_Left r \<le> 547) filtered_df
         else if sublist (ascii ''2 ans'') expiration
           then filter (\<lambda>r. Days_Left r \<le> 730) filtered_df
         else filtered_df)
      else filtered_df)"

text \<open>
  The same lines on a frame: every branch of the chain that is taken reads the column
  \<open>Days_Left\<close> first.
\<close>

definition reads_days_left :: "pystr \<Rightarrow> bool" where
  "reads_days_left expiration \<longleftrightarrow>
     expiration \<noteq> ascii ''Tous les AO'' \<and>
     (sublist (ascii ''3 mois'') expiration \<or> sublist (ascii ''6 mois'') expiration \<or>
      sublist (ascii ''1 an'') expiration \<or> sublist (ascii ''1 an et demi'') expiration \<or>
      sublist (ascii ''2 ans'') expiration)"

definition expiration_step :: "pystr \<Rightarrow> frame \<Rightarrow> exn + frame" where
  "expiration_step expiration filtered_df =
     (if reads_days_left expiration
      then and_then (column (ascii ''Days_Left'') filtered_df)
             (\<lambda>rs. Inr (Rows (filter_expiration expiration rs)))
      else Inr filtered_df)"

text \<open>Lines 238 to 242.\<close>

definition filter_status :: "pystr list \<Rightarrow> frame \<Rightarrow> exn + frame" where
  "filter_status selected filtered_df =
     (if selected \<noteq> []
      then and_then (column (ascii ''Status'') filtered_df)
             (\<lambda>rs. Inr (bool_mask (\<lambda>r. Status r \<in> set selected) rs))
      else Inr filtered_df)"

definition filter_categories :: "pystr list \<Rightarrow> frame \<Rightarrow> exn + frame" where
  "filter_categories selected filtered_df =
     (if selected \<noteq> []
      then and_then (column (ascii ''Categories'') filtered_df)
             (\<lambda>rs. Inr (apply_mask (\<lambda>r. \<exists>cat \<in># Categories r. cat \<in> set selected) rs))
      else Inr filtered_df)"

text \<open>Lines 215 to 242 on the table \<open>df\<close>, which has its columns.\<close>

definition main_filters :: "selection \<Rightarrow> row list \<Rightarrow> exn + frame" where
  "main_filters sel df =
     and_then (filter_acheteurs (selected_acheteurs sel) (Rows df)) (\<lambda>by_acheteur.
     and_then (filter_titulaires (selected_titulaires sel) by_acheteur) (\<lambda>by_titulaire.
     and_then (filter_departments (selected_departments sel) by_titulaire) (\<lambda>by_department.
     and_then (expiration_step (expiration_filter sel) by_department) (\<lambda>by_expiration.
     and_then (filter_status (status_filter sel) by_expiration) (\<lambda>by_status.
     filter_categories (selected_categories sel) by_status)))))"

text \<open>
  Lines 244 to 272: the four metrics, computed only when the filtered frame has a row
  (\<open>filtered_df.empty\<close> holds of a frame without rows, with or without columns);
  otherwise \<open>main\<close> shows a warning and no metric.
\<close>

record stats =
  total :: nat
  active_aos :: nat
  expiring_soon :: nat
  finished_aos :: nat

definition main_stats :: "row list \<Rightarrow> stats option" where
  "main_stats filtered_df =
     (if filtered_df \<noteq> [] then
        Some \<lparr>total = length filtered_df,
              active_aos = length (filter (\<lambda>r. Status r = En_cours) filtered_df),
              expiring_soon =
                length (filter (\<lambda>r. Days_Left r \<le> 90 \<and> Days_Left r \<ge> 0) filtered_df),
              finished_aos = length (filter (\<lambda>r. Status r = Termine) filtered_df)\<rparr>
      else None)"

section \<open>The notions the properties are stated with\<close>

text \<open>
  What one turn of the loop does with an item: the row it appends, if any, and whether
  the turn ends \<open>prepare_timeline_data\<close> with an exception (one the handler does not
  catch, or the \<open>AttributeError\<close> of \<open>item.get\<close> inside the handler).
\<close>

definition normalized :: "pylib \<Rightarrow> timestamp \<Rightarrow> json \<Rightarrow> row option" where
  "normalized L today item =
     (case try_body L today item of Inr (Some r) \<Rightarrow> Some r | _ \<Rightarrow> None)"

definition aborts :: "pylib \<Rightarrow> timestamp \<Rightarrow> json \<Rightarrow> bool" where
  "aborts L today item =
     (case try_body L today item of
        Inl e \<Rightarrow> \<not> caught e \<or> isl (py_get item (ascii ''idweb'') (JStr (ascii ''ID inconnu'')))
      | Inr r \<Rightarrow> False)"

text \<open>The value of \<open>item.get('idweb', 'ID inconnu')\<close> for a dict.\<close>

definition idweb_or_placeholder :: "json \<Rightarrow> json" where
  "idweb_or_placeholder item =
     (case py_get item (ascii ''idweb'') (JStr (ascii ''ID inconnu'')) of
        Inr v \<Rightarrow> v
      | Inl e \<Rightarrow> JStr (ascii ''ID inconnu''))"

text \<open>The labels of the taxonomy, in the order of the source.\<close>

definition category_labels :: "pystr list" where
  "category_labels = map fst category_keywords"

section \<open>Sample inputs\<close>

text \<open>
  A library instance for the examples. It agrees with pandas and CPython on the values
  the examples use: \<open>pd.to_datetime(None)\<close> is null, the ISO dates below are midnight of
  their day (counted in days since 1970-01-01), \<open>'pas une date'\<close> is rejected with a
  \<open>ValueError\<close>, the capital letters of Latin-1 are lower-cased by adding 32.
\<close>

definition midnight :: "int \<Rightarrow> timestamp" where
  "midnight day = \<lparr>nanos = day * day_ns, tz_aware = False\<rparr>"

definition sample_to_datetime :: "json \<Rightarrow> exn + datetime" where
  "sample_to_datetime v =
     (case v of
        JNull \<Rightarrow> Inr NaT
      | JStr s \<Rightarrow>
          (if s = ascii ''2024-01-01'' then Inr (Stamp (midnight 19723))
           else if s = ascii ''2024-01-10'' then Inr (Stamp (midnight 19732))
           else if s = ascii ''2024-05-31'' then Inr (Stamp (midnight 19874))
           else if s = ascii ''2024-06-02'' then Inr (Stamp (midnight 19876))
           else Inl (ValueError (ascii ''Unknown datetime string format'')))
      | _ \<Rightarrow> Inl (TypeError (ascii ''to_datetime'')))"

definition sample_lib :: pylib where
  "sample_lib =
     \<lparr>to_datetime = sample_to_datetime,
      py_str = (\<lambda>v. case v of JNum n \<Rightarrow> n | _ \<Rightarrow> ascii ''None''),
      ucd_lower = (\<lambda>seen c rest. if 0xC0 \<le> c \<and> c \<le> 0xDE \<and> c \<noteq> 0xD7 then [c + 32] else [c])\<rparr>"

text \<open>2024-06-01 at noon, and at midnight.\<close>

definition today_noon :: timestamp where
  "today_noon = \<lparr>nanos = 19875 * day_ns + 43200000000000, tz_aware = False\<rparr>"

definition today_midnight :: timestamp where
  "today_midnight = midnight 19875"

definition sample_item :: "pystr \<Rightarrow> json \<Rightarrow> json \<Rightarrow> json \<Rightarrow> json \<Rightarrow> json" where
  "sample_item idweb date_debut date_fin titulaire lots =
     JObj [(ascii ''idweb'', JStr idweb),
           (ascii ''date_debut'', date_debut),
           (ascii ''date_fin'', date_fin),
           (ascii ''objet'', JStr (ascii ''Fourniture de poulet bio'')),
           (ascii ''nomacheteur'', JStr (ascii ''Ville X'')),
           (ascii ''titulaire'', titulaire),
           (ascii ''code_departement'', JStr (ascii ''75'')),
           (ascii ''LOTS'', lots)]"

definition item_finished :: json where
  "item_finished =
     sample_item (ascii ''AO-1'') (JStr (ascii ''2024-01-01'')) (JStr (ascii ''2024-01-10''))
       (JStr (ascii ''Co A'')) (JList [JStr (ascii ''Poulet bio fermier'')])"

definition item_tomorrow :: json where
  "item_tomorrow =
     sample_item (ascii ''AO-2'') (JStr (ascii ''2024-01-01'')) (JStr (ascii ''2024-06-02''))
       (JStr (ascii ''Co A'')) (JList [])"

definition item_yesterday :: json where
  "item_yesterday =
     sample_item (ascii ''AO-3'') (JStr (ascii ''2024-01-01'')) (JStr (ascii ''2024-05-31''))
       (JStr (ascii ''Co A'')) (JList [])"

definition item_null_date :: json where
  "item_null_date =
     sample_item (ascii ''AO-4'') JNull (JStr (ascii ''2024-06-02''))
       (JStr (ascii ''Co A'')) (JList [])"

definition item_bad_date :: json where
  "item_bad_date =
     sample_item (ascii ''AO-5'') (JStr (ascii ''pas une date'')) (JStr (ascii ''2024-06-02''))
       (JStr (ascii ''Co A'')) (JList [])"

definition item_one_awardee :: json where
  "item_one_awardee =
     sample_item (ascii ''AO-6'') (JStr (ascii ''2024-01-01'')) (JStr (ascii ''2024-06-02''))
       (JList [JStr (ascii ''Co A, Co B'')]) (JList [])"

definition item_two_awardees :: json where
  "item_two_awardees =
     sample_item (ascii ''AO-7'') (JStr (ascii ''2024-01-01'')) (JStr (ascii ''2024-06-02''))
       (JList [JStr (ascii ''Co A''), JStr (ascii ''Co B'')]) (JList [])"

definition item_null_then_bad :: json where
  "item_null_then_bad =
     sample_item (ascii ''AO-8'') JNull (JStr (ascii ''pas une date''))
       (JStr (ascii ''Co A'')) (JList [])"

definition item_num_lot :: json where
  "item_num_lot =
     sample_item (ascii ''AO-9'') (JStr (ascii ''2024-01-01'')) (JStr (ascii ''2024-06-02''))
       (JStr (ascii ''Co A'')) (JList [JNum (ascii ''5'')])"

definition sample_data :: "json list" where
  "sample_data = [item_finished, item_null_date, item_bad_date, item_tomorrow]"

text \<open>The rows \<open>prepare_timeline_data\<close> builds from the sample items.\<close>

definition sample_row :: "int \<Rightarrow> int \<Rightarrow> pystr \<Rightarrow> json \<Rightarrow> pystr multiset \<Rightarrow> row" where
  "sample_row finish_day days_left titulaires lots categories =
     \<lparr>Task = ascii ''['' @ status_of days_left @ ascii ''] Fourniture de poulet bio'',
      Start = midnight 19723, Finish = midnight finish_day,
      Resource = JStr (ascii ''Ville X''), Department = ascii ''75'',
      Departments = [ascii ''75''], Titulaire = titulaires, Days_Left = days_left,
      Status = status_of days_left, Lots = lots, Categories = categories, URL = JStr []\<rparr>"

definition row_finished :: row where
  "row_finished =
     sample_row 19732 (- 144) (ascii ''Co A'') (JList [JStr (ascii ''Poulet bio fermier'')])
       {#ascii ''Volaille'', ascii ''BIO''#}"

definition row_tomorrow :: row where
  "row_tomorrow = sample_row 19876 0 (ascii ''Co A'') (JList []) {#}"

definition row_yesterday :: row where
  "row_yesterday = sample_row 19874 (- 2) (ascii ''Co A'') (JList []) {#}"

definition row_awardees :: row where
  "row_awardees = sample_row 19876 0 (ascii ''Co A, Co B'') (JList []) {#}"

text \<open>A row that ends the given number of days after 2024-06-01.\<close>

definition row_ending_in :: "int \<Rightarrow> row" where
  "row_ending_in days_left =
     sample_row (19875 + days_left) days_left (ascii ''Co A'') (JList []) {#}"

text \<open>
  A table of two open tenders, of different buyers, awardees and departments, and a
  selection of one buyer, the awardee of the other and one department.
\<close>

definition row_ville_x :: row where
  "row_ville_x = row_ending_in 10"

definition row_ville_y :: row where
  "row_ville_y =
     (row_ending_in 20)
       \<lparr>Resource := JStr (ascii ''Ville Y''), Department := ascii ''13'',
        Departments := [ascii ''13''], Titulaire := ascii ''Co B''\<rparr>"

definition crossed_selection :: selection where
  "crossed_selection =
     \<lparr>selected_acheteurs = [JStr (ascii ''Ville X'')],
      selected_titulaires = [ascii ''Co B''],
      selected_departments = [ascii ''75''],
      expiration_filter = ascii ''Tous les AO'',
      status_filter = [En_cours],
      selected_categories = []\<rparr>"

section \<open>Sequencing of results\<close>

lemma and_then_Inl [simp]: "and_then (Inl e) f = Inl e"
  by (simp add: and_then_def)

lemma and_then_Inr [simp]: "and_then (Inr x) f = f x"
  by (simp add: and_then_def)

lemma and_then_eq_Inr: "and_then m f = Inr y \<longleftrightarrow> (\<exists>x. m = Inr x \<and> f x = Inr y)"
  by (cases m) simp_all

section \<open>Properties of categorize_lot\<close>

lemma categorize_loop_filter:
  "categorize_loop s kws acc =
     acc @ map fst (filter (\<lambda>ck. list_ex (\<lambda>k. sublist k s) (snd ck)) kws)"
  by (induction s kws acc rule: categorize_loop.induct) simp_all

lemma distinct_category_labels: "distinct category_labels"
  by (simp add: category_labels_def category_keywords_def ascii_def)

lemma length_category_labels: "length category_labels = 11"
  by (simp add: category_labels_def category_keywords_def)

lemma categorize_loop_distinct: "distinct (categorize_loop s category_keywords [])"
proof -
  have "distinct (map fst (filter (\<lambda>ck. list_ex (\<lambda>k. sublist k s) (snd ck)) category_keywords))"
    using distinct_category_labels unfolding category_labels_def by (rule distinct_map_filter)
  then show ?thesis by (simp add: categorize_loop_filter)
qed

lemma categorize_loop_subset: "set (categorize_loop s category_keywords []) \<subseteq> set category_labels"
  by (auto simp: categorize_loop_filter category_labels_def)

lemma categorize_loop_mem:
  "c \<in> set (categorize_loop s kws []) \<longleftrightarrow>
     (\<exists>ks. (c, ks) \<in> set kws \<and> (\<exists>k\<in>set ks. sublist k s))"
  by (force simp: categorize_loop_filter list_ex_iff)

lemma lower_from_skip:
  "\<exists>done. lower_from L seen (ps @ rest) = done @ lower_from L (seen @ ps) rest"
proof (induction ps arbitrary: seen)
  case Nil
  then show ?case by simp
next
  case (Cons c ps)
  from Cons.IH[of "seen @ [c]"] obtain d
    where "lower_from L (seen @ [c]) (ps @ rest) = d @ lower_from L (seen @ c # ps) rest"
    by auto
  then show ?case by simp
qed

lemma lower_from_ascii:
  "\<forall>c\<in>set w. c < 128 \<Longrightarrow>
     lower_from L seen (w @ rest) = map ascii_lower w @ lower_from L (seen @ w) rest"
  by (induction w arbitrary: seen) simp_all

lemma ascii_lower_small: "ascii_lower c < 128 \<Longrightarrow> c < 128"
  by (simp add: ascii_lower_def split: if_splits)

lemma sublist_lower:
  assumes "sublist w s" and "\<forall>c\<in>set (map ascii_lower w). c < 128"
  shows "sublist (map ascii_lower w) (lower L s)"
proof -
  from assms(1) obtain ps ss where s: "s = ps @ w @ ss"
    by (auto simp: sublist_def)
  from assms(2) have small: "\<forall>c\<in>set w. c < 128"
    by (auto intro: ascii_lower_small)
  obtain d where "lower L s = d @ lower_from L ([] @ ps) (w @ ss)"
    unfolding lower_def s using lower_from_skip[of L "[]" ps "w @ ss"] by blast
  then have "lower L s = d @ map ascii_lower w @ lower_from L (ps @ w) ss"
    using lower_from_ascii[OF small, of L ps ss] by simp
  then show ?thesis
    unfolding sublist_def by blast
qed

text \<open>
  C6. For every lot name that is a string, \<open>categorize_lot\<close> returns, and a category is
  in the result exactly when one of its keywords occurs in the lower-cased name. A name
  that contains \<open>poulet\<close> and \<open>bio\<close>, each letter in either case, gets both Volaille and
  BIO; a name in which no keyword occurs gets the empty list.
\<close>

theorem categorize_lot_by_keywords:
  "\<exists>cats. categorize_lot L (JStr lot_name) = Inr cats \<and>
     (\<forall>c. c \<in> set cats \<longleftrightarrow>
        (\<exists>kws. (c, kws) \<in> set category_keywords \<and> (\<exists>k\<in>set kws. sublist k (lower L lot_name)))) \<and>
     ((\<exists>w. sublist w lot_name \<and> map ascii_lower w = ascii ''poulet'') \<and>
      (\<exists>w. sublist w lot_name \<and> map ascii_lower w = ascii ''bio'')
        \<longrightarrow> ascii ''Volaille'' \<in> set cats \<and> ascii ''BIO'' \<in> set cats) \<and>
     ((\<forall>ck\<in>set category_keywords. \<forall>k\<in>set (snd ck). \<not> sublist k (lower L lot_name))
        \<longrightarrow> cats = [])"
proof -
  let ?cats = "categorize_loop (lower L lot_name) category_keywords []"
  have run: "categorize_lot L (JStr lot_name) = Inr ?cats"
    by (simp add: categorize_lot_def)
  have mem: "\<forall>c. c \<in> set ?cats \<longleftrightarrow>
        (\<exists>kws. (c, kws) \<in> set category_keywords \<and> (\<exists>k\<in>set kws. sublist k (lower L lot_name)))"
    by (simp add: categorize_loop_mem)
  have casing: "ascii ''Volaille'' \<in> set ?cats \<and> ascii ''BIO'' \<in> set ?cats"
    if p: "\<exists>w. sublist w lot_name \<and> map ascii_lower w = ascii ''poulet''"
    and b: "\<exists>w. sublist w lot_name \<and> map ascii_lower w = ascii ''bio''"
  proof -
    from p obtain w where w: "sublist w lot_name" "map ascii_lower w = ascii ''poulet''" by blast
    have "\<forall>c\<in>set (map ascii_lower w). c < 128"
      unfolding w(2) by (simp add: ascii_def)
    with w have sp: "sublist (ascii ''poulet'') (lower L lot_name)"
      using sublist_lower[of w lot_name L] by simp
    from b obtain v where v: "sublist v lot_name" "map ascii_lower v = ascii ''bio''" by blast
    have "\<forall>c\<in>set (map ascii_lower v). c < 128"
      unfolding v(2) by (simp add: ascii_def)
    with v have sb: "sublist (ascii ''bio'') (lower L lot_name)"
      using sublist_lower[of v lot_name L] by simp
    have "(ascii ''Volaille'', [ascii ''volaille'', ascii ''poulet'', ascii ''dinde'']) \<in> set category_keywords"
      by (simp add: category_keywords_def)
    with sp have 1: "ascii ''Volaille'' \<in> set ?cats"
      unfolding categorize_loop_mem by (intro exI[of _ "[ascii ''volaille'', ascii ''poulet'', ascii ''dinde'']"]) simp
    have "(ascii ''BIO'', [ascii ''bio'']) \<in> set category_keywords"
      by (simp add: category_keywords_def)
    with sb have 2: "ascii ''BIO'' \<in> set ?cats"
      unfolding categorize_loop_mem by (intro exI[of _ "[ascii ''bio'']"]) simp
    from 1 2 show ?thesis ..
  qed
  have none: "?cats = []"
    if "\<forall>ck\<in>set category_keywords. \<forall>k\<in>set (snd ck). \<not> sublist k (lower L lot_name)"
  proof -
    have "set ?cats = {}"
      using that unfolding set_eq_iff categorize_loop_mem by fastforce
    then show ?thesis by simp
  qed
  from run mem casing none show ?thesis by blast
qed

theorem categorize_lot_by_keywords_witness:
  "(sublist (ascii ''POULET'') (ascii ''POULET Bio'') \<and>
    map ascii_lower (ascii ''POULET'') = ascii ''poulet'' \<and>
    sublist (ascii ''Bio'') (ascii ''POULET Bio'') \<and>
    map ascii_lower (ascii ''Bio'') = ascii ''bio'' \<and>
    (\<exists>cats. categorize_lot sample_lib (JStr (ascii ''POULET Bio'')) = Inr cats \<and>
       ascii ''Volaille'' \<in> set cats \<and> ascii ''BIO'' \<in> set cats)) \<and>
   \<not> (\<exists>ck\<in>set category_keywords. \<exists>k\<in>set (snd ck).
         sublist k (lower sample_lib (ascii ''Gaz''))) \<and>
   categorize_lot sample_lib (JStr (ascii ''Gaz'')) = Inr []"
proof -
  have h: "sublist (ascii ''POULET'') (ascii ''POULET Bio'') \<and>
    map ascii_lower (ascii ''POULET'') = ascii ''poulet'' \<and>
    sublist (ascii ''Bio'') (ascii ''POULET Bio'') \<and>
    map ascii_lower (ascii ''Bio'') = ascii ''bio''"
    by (simp add: ascii_def ascii_lower_def sublist_code)
  from categorize_lot_by_keywords[of sample_lib "ascii ''POULET Bio''"] h
  have both: "\<exists>cats. categorize_lot sample_lib (JStr (ascii ''POULET Bio'')) = Inr cats \<and>
       ascii ''Volaille'' \<in> set cats \<and> ascii ''BIO'' \<in> set cats"
    by blast
  have g: "\<forall>ck\<in>set category_keywords. \<forall>k\<in>set (snd ck).
       \<not> sublist k (lower sample_lib (ascii ''Gaz''))"
    by (simp add: category_keywords_def lower_def ascii_def ascii_lower_def sublist_code)
  from categorize_lot_by_keywords[of sample_lib "ascii ''Gaz''"] g
  have none: "categorize_lot sample_lib (JStr (ascii ''Gaz'')) = Inr []"
    by auto
  from h both g none show ?thesis by blast
qed

section \<open>Properties of prepare_timeline_data\<close>

lemma row_of_item_Inr:
  assumes "row_of_item L today item start_date end_date = Inr r"
  obtains days_left titulaire titulaires code_departement lots lot_list all_categories
    objet task nomacheteur departments url
  where "days_between end_date today = Inr days_left"
    and "subscript item (ascii ''titulaire'') = Inr titulaire"
    and "titulaires_of L titulaire = Inr titulaires"
    and "subscript item (ascii ''code_departement'') = Inr code_departement"
    and "py_get item (ascii ''LOTS'') (JList []) = Inr lots"
    and "py_iter lots = Inr lot_list"
    and "update_all L lot_list {} = Inr all_categories"
    and "subscript item (ascii ''objet'') = Inr objet"
    and "task_title (status_of days_left) objet = Inr task"
    and "subscript item (ascii ''nomacheteur'') = Inr nomacheteur"
    and "str_items (departments_of L code_departement) = Inr departments"
    and "py_get item (ascii ''url_avis'') (JStr []) = Inr url"
    and "r = \<lparr>Task = task, Start = start_date, Finish = end_date, Resource = nomacheteur,
          Department = join (ascii '', '') departments, Departments = departments,
          Titulaire = titulaires, Days_Left = days_left, Status = status_of days_left,
          Lots = lots, Categories = mset_set all_categories, URL = url\<rparr>"
  proof -
  from assms show thesis
    unfolding row_of_item_def and_then_eq_Inr
    apply (elim exE conjE)
    apply (rule that)
    apply assumption+
    apply simp
    done
qed

lemma try_body_Some:
  assumes "try_body L today item = Inr (Some r)"
  obtains raw_start raw_end start_date end_date
  where "subscript item (ascii ''date_debut'') = Inr raw_start"
    and "to_datetime L raw_start = Inr (Stamp start_date)"
    and "subscript item (ascii ''date_fin'') = Inr raw_end"
    and "to_datetime L raw_end = Inr (Stamp end_date)"
    and "row_of_item L today item start_date end_date = Inr r"
proof -
  from assms obtain raw_start sd raw_end ed
    where 1: "subscript item (ascii ''date_debut'') = Inr raw_start"
      and 2: "to_datetime L raw_start = Inr sd"
      and 3: "subscript item (ascii ''date_fin'') = Inr raw_end"
      and 4: "to_datetime L raw_end = Inr ed"
      and 5: "(case (sd, ed) of
                 (Stamp start_ts, Stamp end_ts) \<Rightarrow>
                   and_then (row_of_item L today item start_ts end_ts) (\<lambda>r. Inr (Some r))
               | _ \<Rightarrow> Inr None) = Inr (Some r)"
    unfolding try_body_def and_then_eq_Inr by blast
  from 5 obtain s e where sd: "sd = Stamp s" and ed: "ed = Stamp e"
    by (cases sd; cases ed) simp_all
  from 5 have "row_of_item L today item s e = Inr r"
    by (simp add: sd ed and_then_eq_Inr)
  with 1 2 3 4 show thesis
    unfolding sd ed by (rule that)
qed


lemma prepare_loop_Inr:
  "prepare_loop L today items (rows, ws) = Inr (rows', ws') \<Longrightarrow>
     rows' = rows @ List.map_filter (normalized L today) items \<and>
     ws' = ws @ concat (map (\<lambda>item. case try_body L today item of
                                Inl e \<Rightarrow> [warning_text L (idweb_or_placeholder item) e]
                              | Inr r \<Rightarrow> []) items) \<and>
     (\<forall>item\<in>set items. \<not> aborts L today item)"
proof (induction items arbitrary: rows ws)
  case Nil
  then show ?case by (simp add: map_filter_simps)
next
  case (Cons item items)
  show ?case
  proof (cases "try_body L today item")
    case (Inr ro)
    show ?thesis
    proof (cases ro)
      case None
      with Inr Cons.prems have "prepare_loop L today items (rows, ws) = Inr (rows', ws')"
        by simp
      from Cons.IH[OF this] Inr None show ?thesis
        by (simp add: map_filter_simps normalized_def aborts_def)
    next
      case (Some r)
      with Inr Cons.prems have "prepare_loop L today items (rows @ [r], ws) = Inr (rows', ws')"
        by simp
      from Cons.IH[OF this] Inr Some show ?thesis
        by (simp add: map_filter_simps normalized_def aborts_def)
    qed
  next
    case (Inl e)
    with Cons.prems have c: "caught e"
      by (simp split: if_splits)
    with Inl Cons.prems obtain idweb
      where g: "py_get item (ascii ''idweb'') (JStr (ascii ''ID inconnu'')) = Inr idweb"
        and rest: "prepare_loop L today items (rows, ws @ [warning_text L idweb e]) = Inr (rows', ws')"
      by (auto simp: and_then_eq_Inr)
    from Cons.IH[OF rest] Inl c g show ?thesis
      by (simp add: map_filter_simps normalized_def aborts_def idweb_or_placeholder_def)
  qed
qed

lemma prepare_loop_returns:
  "\<forall>item\<in>set items. \<not> aborts L today item \<Longrightarrow>
     \<exists>rows' ws'. prepare_loop L today items (rows, ws) = Inr (rows', ws')"
proof (induction items arbitrary: rows ws)
  case Nil
  then show ?case by simp
next
  case (Cons item items)
  then have IH: "\<And>rows ws. \<exists>rows' ws'. prepare_loop L today items (rows, ws) = Inr (rows', ws')"
    by simp
  from Cons.prems have na: "\<not> aborts L today item" by simp
  show ?case
  proof (cases "try_body L today item")
    case (Inr ro)
    with IH show ?thesis by (cases ro) simp_all
  next
    case (Inl e)
    with na have c: "caught e"
      and "\<not> isl (py_get item (ascii ''idweb'') (JStr (ascii ''ID inconnu'')))"
      by (simp_all add: aborts_def)
    then obtain idweb
      where "py_get item (ascii ''idweb'') (JStr (ascii ''ID inconnu'')) = Inr idweb"
      by (cases "py_get item (ascii ''idweb'') (JStr (ascii ''ID inconnu''))") simp_all
    with Inl c IH show ?thesis by simp
  qed
qed

lemma table_when_build_returns:
  "(prepare_timeline_data L today data = Inr (table, warnings) \<longrightarrow>
      table = List.map_filter (normalized L today) data) \<and>
   ((\<forall>item\<in>set data. \<not> aborts L today item) \<longrightarrow>
      (\<exists>warnings. prepare_timeline_data L today data =
         Inr (List.map_filter (normalized L today) data, warnings)))"
proof (intro conjI impI)
  assume "prepare_timeline_data L today data = Inr (table, warnings)"
  then show "table = List.map_filter (normalized L today) data"
    unfolding prepare_timeline_data_def using prepare_loop_Inr by fastforce
next
  assume "\<forall>item\<in>set data. \<not> aborts L today item"
  then obtain t w where r: "prepare_loop L today data ([], []) = Inr (t, w)"
    using prepare_loop_returns[of data L today "[]" "[]"] by blast
  from prepare_loop_Inr[OF r] have "t = List.map_filter (normalized L today) data"
    by simp
  with r show "\<exists>warnings. prepare_timeline_data L today data =
         Inr (List.map_filter (normalized L today) data, warnings)"
    unfolding prepare_timeline_data_def by blast
qed

lemma prepare_loop_aborts:
  "try_body L today item = Inl e \<Longrightarrow> \<not> caught e \<Longrightarrow>
     (\<forall>earlier\<in>set before. \<not> aborts L today earlier) \<Longrightarrow>
     prepare_loop L today (before @ item # after) state = Inl e"
proof (induction before arbitrary: state)
  case Nil
  then show ?case by (cases state) simp
next
  case (Cons first before)
  obtain rows ws where state: "state = (rows, ws)" by (cases state)
  from Cons.prems have na: "\<not> aborts L today first" by simp
  show ?case
  proof (cases "try_body L today first")
    case (Inr ro)
    with Cons state show ?thesis by (cases ro) simp_all
  next
    case (Inl e')
    with na have c: "caught e'"
      and "\<not> isl (py_get first (ascii ''idweb'') (JStr (ascii ''ID inconnu'')))"
      by (simp_all add: aborts_def)
    then obtain idweb
      where "py_get first (ascii ''idweb'') (JStr (ascii ''ID inconnu'')) = Inr idweb"
      by (cases "py_get first (ascii ''idweb'') (JStr (ascii ''ID inconnu''))") simp_all
    with Inl c Cons state show ?thesis by simp
  qed
qed

lemma table_rows:
  assumes "prepare_timeline_data L today data = Inr (table, warnings)" and "r \<in> set table"
  obtains item where "item \<in> set data" and "try_body L today item = Inr (Some r)"
proof -
  from assms(1) have "table = List.map_filter (normalized L today) data"
    unfolding prepare_timeline_data_def using prepare_loop_Inr by fastforce
  with assms(2) obtain item where "item \<in> set data" and "normalized L today item = Some r"
    by (auto simp: map_filter_def)
  then show thesis
    by (intro that[of item]) (auto simp: normalized_def split: sum.splits option.splits)
qed


subsection \<open>The sample items\<close>

lemmas sample_eval =
  try_body_def row_of_item_def sample_item_def sample_lib_def sample_to_datetime_def
  ascii_def days_between_def day_ns_def midnight_def today_noon_def today_midnight_def
  titulaires_of_def departments_of_def str_of_def categorize_lot_def task_title_def
  status_of_def Termine_def En_cours_def lower_def ascii_lower_def category_keywords_def
  sublist_code py_join_def sample_row_def

lemma try_body_item_finished:
  "try_body sample_lib today_noon item_finished = Inr (Some row_finished)"
  by (simp add: sample_eval item_finished_def row_finished_def)

lemma try_body_item_tomorrow:
  "try_body sample_lib today_noon item_tomorrow = Inr (Some row_tomorrow)"
  by (simp add: sample_eval item_tomorrow_def row_tomorrow_def)

lemma try_body_item_yesterday:
  "try_body sample_lib today_noon item_yesterday = Inr (Some row_yesterday)"
  by (simp add: sample_eval item_yesterday_def row_yesterday_def)

lemma try_body_item_null_date:
  "try_body sample_lib today_noon item_null_date = Inr None"
  by (simp add: sample_eval item_null_date_def)

lemma try_body_item_bad_date:
  "try_body sample_lib today_noon item_bad_date =
     Inl (ValueError (ascii ''Unknown datetime string format''))"
  by (simp add: sample_eval item_bad_date_def)

lemma try_body_item_one_awardee:
  "try_body sample_lib today_noon item_one_awardee = Inr (Some row_awardees)"
  by (simp add: sample_eval item_one_awardee_def row_awardees_def)

lemma try_body_item_two_awardees:
  "try_body sample_lib today_noon item_two_awardees = Inr (Some row_awardees)"
  by (simp add: sample_eval item_two_awardees_def row_awardees_def)

lemmas sample_bodies =
  try_body_item_finished try_body_item_tomorrow try_body_item_yesterday
  try_body_item_null_date try_body_item_bad_date

lemma idweb_item_bad_date:
  "py_get item_bad_date (ascii ''idweb'') (JStr (ascii ''ID inconnu'')) = Inr (JStr (ascii ''AO-5''))"
  by (simp add: item_bad_date_def sample_item_def ascii_def)

lemma sample_data_runs:
  "prepare_timeline_data sample_lib today_noon sample_data =
     Inr ([row_finished, row_tomorrow],
          [warning_text sample_lib (JStr (ascii ''AO-5''))
             (ValueError (ascii ''Unknown datetime string format''))])"
  by (simp add: prepare_timeline_data_def sample_data_def sample_bodies idweb_item_bad_date)

lemma try_body_item_num_lot:
  "try_body sample_lib today_noon item_num_lot = Inl (AttributeError (ascii ''lower''))"
  by (simp add: sample_eval item_num_lot_def)

text \<open>
  C9. For every input, the table is the rows of the items that normalize, in the order
  of the input. The code does not build it for every input: a lot that is not a string
  raises \<open>AttributeError\<close> in \<open>categorize_lot\<close>, which the handler of the loop does
  not catch, and \<open>prepare_timeline_data\<close> ends with that exception although the items
  before and after it normalize.
\<close>

theorem non_string_lot_aborts_the_build:
  "try_body sample_lib today_noon item_num_lot = Inl (AttributeError (ascii ''lower'')) \<and>
   prepare_timeline_data sample_lib today_noon [item_tomorrow, item_num_lot, item_finished] =
     Inl (AttributeError (ascii ''lower'')) \<and>
   List.map_filter (normalized sample_lib today_noon)
     [item_tomorrow, item_num_lot, item_finished] = [row_tomorrow, row_finished]"
proof -
  have "prepare_timeline_data sample_lib today_noon [item_tomorrow, item_num_lot, item_finished] =
     Inl (AttributeError (ascii ''lower''))"
    by (simp add: prepare_timeline_data_def sample_bodies try_body_item_num_lot)
  moreover have "List.map_filter (normalized sample_lib today_noon)
     [item_tomorrow, item_num_lot, item_finished] = [row_tomorrow, row_finished]"
    by (simp add: map_filter_simps normalized_def sample_bodies try_body_item_num_lot)
  ultimately show ?thesis using try_body_item_num_lot by simp
qed

subsection \<open>Categories of a row\<close>

lemma categorize_lot_Inr:
  "categorize_lot L lot = Inr cats \<Longrightarrow> distinct cats \<and> set cats \<subseteq> set category_labels"
  using categorize_loop_distinct categorize_loop_subset
  by (auto simp: categorize_lot_def split: json.splits)

lemma update_all_Inr:
  "update_all L lots acc = Inr S \<Longrightarrow> finite acc \<Longrightarrow> acc \<subseteq> set category_labels \<Longrightarrow>
     finite S \<and> S \<subseteq> set category_labels"
proof (induction lots arbitrary: acc)
  case Nil
  then show ?case by simp
next
  case (Cons lot lots)
  from Cons.prems(1) obtain cats
    where c: "categorize_lot L lot = Inr cats"
      and u: "update_all L lots (acc \<union> set cats) = Inr S"
    by (auto simp: and_then_eq_Inr)
  from categorize_lot_Inr[OF c] Cons.prems
  have "finite (acc \<union> set cats)" and "acc \<union> set cats \<subseteq> set category_labels"
    by auto
  with Cons.IH[OF u] show ?case by blast
qed

lemma try_body_categories:
  assumes "try_body L today item = Inr (Some r)"
  shows "count (Categories r) c \<le> 1" and "set_mset (Categories r) \<subseteq> set category_labels"
proof -
  from assms obtain s e where "row_of_item L today item s e = Inr r"
    by (rule try_body_Some)
  then obtain lot_list S
    where u: "update_all L lot_list {} = Inr S" and c: "Categories r = mset_set S"
    by (rule row_of_item_Inr) simp
  from update_all_Inr[OF u] have "finite S" and "S \<subseteq> set category_labels"
    by simp_all
  with c show "count (Categories r) c \<le> 1" and "set_mset (Categories r) \<subseteq> set category_labels"
    by (simp_all add: count_mset_set')
qed

text \<open>
  C10. On every string \<open>categorize_lot\<close> returns a list without repetition whose
  members are among the eleven labels of the taxonomy; and in every row of the table
  \<open>prepare_timeline_data\<close> returns, \<open>Categories\<close> lists no label twice and only labels
  of the taxonomy.
\<close>

theorem categories_distinct_in_taxonomy:
  "(\<exists>cats. categorize_lot L (JStr lot_name) = Inr cats \<and> distinct cats \<and>
      set cats \<subseteq> set category_labels) \<and>
   length category_labels = 11 \<and> distinct category_labels \<and>
   (prepare_timeline_data L today data = Inr (table, warnings) \<longrightarrow>
      (\<forall>r\<in>set table. (\<forall>c. count (Categories r) c \<le> 1) \<and>
         set_mset (Categories r) \<subseteq> set category_labels))"
proof (intro conjI impI ballI allI)
  have "categorize_lot L (JStr lot_name) =
          Inr (categorize_loop (lower L lot_name) category_keywords [])"
    by (simp add: categorize_lot_def)
  with categorize_lot_Inr
  show "\<exists>cats. categorize_lot L (JStr lot_name) = Inr cats \<and> distinct cats \<and>
      set cats \<subseteq> set category_labels"
    by blast
next
  show "length category_labels = 11" by (rule length_category_labels)
next
  show "distinct category_labels" by (rule distinct_category_labels)
next
  fix r c
  assume "prepare_timeline_data L today data = Inr (table, warnings)" and "r \<in> set table"
  then obtain item where "try_body L today item = Inr (Some r)"
    by (rule table_rows)
  then show "count (Categories r) c \<le> 1" by (rule try_body_categories)
next
  fix r
  assume "prepare_timeline_data L today data = Inr (table, warnings)" and "r \<in> set table"
  then obtain item where "try_body L today item = Inr (Some r)"
    by (rule table_rows)
  then show "set_mset (Categories r) \<subseteq> set category_labels" by (rule try_body_categories)
qed

theorem categories_distinct_in_taxonomy_witness:
  "(\<exists>warnings. prepare_timeline_data sample_lib today_noon sample_data =
      Inr ([row_finished, row_tomorrow], warnings)) \<and>
   Categories row_finished = {#ascii ''Volaille'', ascii ''BIO''#} \<and>
   count (Categories row_finished) (ascii ''BIO'') \<le> 1 \<and>
   set_mset (Categories row_finished) \<subseteq> set category_labels"
proof -
  from sample_data_runs
  have run: "\<exists>warnings. prepare_timeline_data sample_lib today_noon sample_data =
      Inr ([row_finished, row_tomorrow], warnings)"
    by blast
  then obtain warnings where "prepare_timeline_data sample_lib today_noon sample_data =
      Inr ([row_finished, row_tomorrow], warnings)" ..
  with categories_distinct_in_taxonomy[of sample_lib _ today_noon sample_data
      "[row_finished, row_tomorrow]" warnings]
  have "count (Categories row_finished) (ascii ''BIO'') \<le> 1"
    and "set_mset (Categories row_finished) \<subseteq> set category_labels"
    by simp_all
  moreover have "Categories row_finished = {#ascii ''Volaille'', ascii ''BIO''#}"
    by (simp add: row_finished_def sample_row_def)
  ultimately show ?thesis using run by blast
qed

subsection \<open>Warnings\<close>

lemma try_body_None_iff:
  "try_body L today item = Inr None \<longleftrightarrow>
     (\<exists>raw_start raw_end start_date end_date.
        subscript item (ascii ''date_debut'') = Inr raw_start \<and>
        to_datetime L raw_start = Inr start_date \<and>
        subscript item (ascii ''date_fin'') = Inr raw_end \<and>
        to_datetime L raw_end = Inr end_date \<and>
        (start_date = NaT \<or> end_date = NaT))"
proof
  assume "try_body L today item = Inr None"
  then obtain raw_start sd raw_end ed
    where 1: "subscript item (ascii ''date_debut'') = Inr raw_start"
      and 2: "to_datetime L raw_start = Inr sd"
      and 3: "subscript item (ascii ''date_fin'') = Inr raw_end"
      and 4: "to_datetime L raw_end = Inr ed"
      and 5: "(case (sd, ed) of
                 (Stamp start_ts, Stamp end_ts) \<Rightarrow>
                   and_then (row_of_item L today item start_ts end_ts) (\<lambda>r. Inr (Some r))
               | _ \<Rightarrow> Inr None) = Inr None"
    unfolding try_body_def and_then_eq_Inr by blast
  from 5 have "sd = NaT \<or> ed = NaT"
    by (cases sd; cases ed) (simp_all add: and_then_eq_Inr)
  with 1 2 3 4 show "\<exists>raw_start raw_end start_date end_date.
        subscript item (ascii ''date_debut'') = Inr raw_start \<and>
        to_datetime L raw_start = Inr start_date \<and>
        subscript item (ascii ''date_fin'') = Inr raw_end \<and>
        to_datetime L raw_end = Inr end_date \<and>
        (start_date = NaT \<or> end_date = NaT)"
    by blast
next
  assume "\<exists>raw_start raw_end start_date end_date.
        subscript item (ascii ''date_debut'') = Inr raw_start \<and>
        to_datetime L raw_start = Inr start_date \<and>
        subscript item (ascii ''date_fin'') = Inr raw_end \<and>
        to_datetime L raw_end = Inr end_date \<and>
        (start_date = NaT \<or> end_date = NaT)"
  then obtain raw_start raw_end sd ed
    where "subscript item (ascii ''date_debut'') = Inr raw_start"
      and "to_datetime L raw_start = Inr sd"
      and "subscript item (ascii ''date_fin'') = Inr raw_end"
      and "to_datetime L raw_end = Inr ed"
      and "sd = NaT \<or> ed = NaT"
    by blast
  then show "try_body L today item = Inr None"
    by (cases sd; cases ed) (simp_all add: try_body_def)
qed

lemma try_body_item_null_then_bad:
  "try_body sample_lib today_noon item_null_then_bad =
     Inl (ValueError (ascii ''Unknown datetime string format''))"
  by (simp add: sample_eval item_null_then_bad_def)

text \<open>
  C2, as amended. When \<open>prepare_timeline_data\<close> returns, the warnings are, in input
  order, exactly one for each item whose normalization raised an exception (the handler
  caught it: a \<open>TypeError\<close>, \<open>ValueError\<close> or \<open>KeyError\<close>), and none for any other
  item; every item is either a row of the table, or warned about, or dropped with no
  warning. An item is dropped with no warning exactly when both of its dates are
  present and convert without an exception and one of them converts to a null date.
  The warning contains the text of the item's \<open>idweb\<close>, or of \<open>ID inconnu\<close> when it has
  none, and the text of the exception.
\<close>

theorem warnings_for_raised_exceptions:
  assumes "prepare_timeline_data L today data = Inr (table, warnings)"
  shows "warnings =
           concat (map (\<lambda>item. case try_body L today item of
                                 Inl e \<Rightarrow> [warning_text L (idweb_or_placeholder item) e]
                               | Inr r \<Rightarrow> []) data) \<and>
         length table + length warnings +
           length (filter (\<lambda>item. try_body L today item = Inr None) data) = length data \<and>
         (try_body L today item = Inr None \<longleftrightarrow>
            (\<exists>raw_start raw_end start_date end_date.
               subscript item (ascii ''date_debut'') = Inr raw_start \<and>
               to_datetime L raw_start = Inr start_date \<and>
               subscript item (ascii ''date_fin'') = Inr raw_end \<and>
               to_datetime L raw_end = Inr end_date \<and>
               (start_date = NaT \<or> end_date = NaT))) \<and>
         idweb_or_placeholder (JObj kvs) =
           (case map_of kvs (ascii ''idweb'') of Some v \<Rightarrow> v | None \<Rightarrow> JStr (ascii ''ID inconnu'')) \<and>
         sublist (str_of L idweb) (warning_text L idweb e) \<and>
         sublist (str_exn e) (warning_text L idweb e)"
proof -
  let ?w = "\<lambda>item. case try_body L today item of
                      Inl e \<Rightarrow> [warning_text L (idweb_or_placeholder item) e]
                    | Inr r \<Rightarrow> []"
  from assms have t: "table = List.map_filter (normalized L today) data"
    and w: "warnings = concat (map ?w data)"
    unfolding prepare_timeline_data_def using prepare_loop_Inr by fastforce+
  have "length (List.map_filter (normalized L today) items) + length (concat (map ?w items)) +
          length (filter (\<lambda>item. try_body L today item = Inr None) items) = length items"
    for items
  proof (induction items)
    case Nil
    then show ?case by (simp add: map_filter_simps)
  next
    case (Cons item items)
    then show ?case
      by (cases "try_body L today item")
         (auto simp: map_filter_simps normalized_def split: option.splits)
  qed
  with t w have n: "length table + length warnings +
           length (filter (\<lambda>item. try_body L today item = Inr None) data) = length data"
    by simp
  have i: "idweb_or_placeholder (JObj kvs) =
           (case map_of kvs (ascii ''idweb'') of Some v \<Rightarrow> v | None \<Rightarrow> JStr (ascii ''ID inconnu''))"
    by (simp add: idweb_or_placeholder_def)
  have "warning_text L idweb e =
          (ascii ''Erreur avec l'' @ ascii [CHR 0x27] @ ascii ''entr'' @ [0xE9] @ ascii ''e: '') @
          str_of L idweb @ (ascii '' - '' @ str_exn e)"
    by (simp add: warning_text_def)
  then have s1: "sublist (str_of L idweb) (warning_text L idweb e)"
    by (simp only: sublist_appendI)
  have "warning_text L idweb e =
          (ascii ''Erreur avec l'' @ ascii [CHR 0x27] @ ascii ''entr'' @ [0xE9] @ ascii ''e: '' @
           str_of L idweb @ ascii '' - '') @ str_exn e"
    by (simp add: warning_text_def)
  then have s2: "sublist (str_exn e) (warning_text L idweb e)"
    by (simp only: sublist_append_leftI)
  from w n i s1 s2 show ?thesis
    by (intro conjI) (assumption | rule try_body_None_iff)+
qed

theorem warnings_for_raised_exceptions_witness:
  "prepare_timeline_data sample_lib today_noon sample_data =
     Inr ([row_finished, row_tomorrow],
          [warning_text sample_lib (JStr (ascii ''AO-5''))
             (ValueError (ascii ''Unknown datetime string format''))]) \<and>
   length [row_finished, row_tomorrow] + 1 +
     length (filter (\<lambda>item. try_body sample_lib today_noon item = Inr None) sample_data) =
     length sample_data \<and>
   filter (\<lambda>item. try_body sample_lib today_noon item = Inr None) sample_data = [item_null_date] \<and>
   subscript item_null_date (ascii ''date_debut'') = Inr JNull \<and>
   to_datetime sample_lib JNull = Inr NaT \<and>
   try_body sample_lib today_noon item_null_then_bad =
     Inl (ValueError (ascii ''Unknown datetime string format''))"
proof -
  have f: "filter (\<lambda>item. try_body sample_lib today_noon item = Inr None) sample_data =
      [item_null_date]"
    by (simp add: sample_data_def sample_bodies)
  have d: "subscript item_null_date (ascii ''date_debut'') = Inr JNull"
    "to_datetime sample_lib JNull = Inr NaT"
    by (simp_all add: item_null_date_def sample_item_def ascii_def sample_lib_def
          sample_to_datetime_def)
  from warnings_for_raised_exceptions[OF sample_data_runs] f
  have n: "length [row_finished, row_tomorrow] + 1 +
     length (filter (\<lambda>item. try_body sample_lib today_noon item = Inr None) sample_data) =
     length sample_data"
    by simp
  show ?thesis
    by (intro conjI) (rule sample_data_runs n f d try_body_item_null_then_bad)+
qed

text \<open>
  C2 as stated fails: an item whose \<open>date_debut\<close> is \<open>null\<close> and whose \<open>date_fin\<close>
  is a date is left out of the table and no warning is produced.
\<close>

theorem null_date_dropped_silently_counterexample:
  "try_body sample_lib today_noon item_null_date = Inr None \<and>
   prepare_timeline_data sample_lib today_noon [item_null_date] = Inr ([], [])"
  by (simp add: prepare_timeline_data_def try_body_item_null_date)

subsection \<open>Status, title and days left\<close>

lemma Termine_neq_En_cours: "Termine \<noteq> En_cours"
  by (simp add: Termine_def En_cours_def ascii_def)

lemma status_of_Termine: "status_of d = Termine \<longleftrightarrow> d < 0"
  using Termine_neq_En_cours by (auto simp: status_of_def)

lemma status_of_En_cours: "status_of d = En_cours \<longleftrightarrow> 0 \<le> d"
  using Termine_neq_En_cours by (auto simp: status_of_def)

lemma task_title_Inr:
  "task_title status objet = Inr task \<Longrightarrow>
     \<exists>s. objet = JStr s \<and>
       task = ascii ''['' @ status @ ascii ''] '' @
              (if length s > 80 then take 80 s @ ascii ''...'' else s)"
  by (cases objet) (auto simp: task_title_def)

text \<open>
  C7. For every item that normalizes, the status of its row is \<open>Termine\<close> exactly
  when \<open>Days_Left\<close> is negative and \<open>En cours\<close> otherwise, and \<open>Task\<close> is the status
  between square brackets, a space, and \<open>objet\<close> cut to 80 characters and three dots
  when it is longer.
\<close>

theorem status_and_title:
  assumes "try_body L today item = Inr (Some r)"
  shows "(Status r = Termine \<longleftrightarrow> Days_Left r < 0) \<and>
         (Status r = En_cours \<longleftrightarrow> 0 \<le> Days_Left r) \<and>
         (\<exists>objet. subscript item (ascii ''objet'') = Inr (JStr objet) \<and>
            Task r = ascii ''['' @ Status r @ ascii ''] '' @
                     (if length objet > 80 then take 80 objet @ ascii ''...'' else objet))"
proof -
  from assms obtain s e where "row_of_item L today item s e = Inr r"
    by (rule try_body_Some)
  then obtain days_left objet task
    where o: "subscript item (ascii ''objet'') = Inr objet"
      and t: "task_title (status_of days_left) objet = Inr task"
      and r: "Task r = task" "Status r = status_of days_left" "Days_Left r = days_left"
    by (rule row_of_item_Inr) simp
  from task_title_Inr[OF t] o r show ?thesis
    by (auto simp: status_of_Termine status_of_En_cours)
qed

theorem status_and_title_witness:
  "try_body sample_lib today_noon item_finished = Inr (Some row_finished) \<and>
   Days_Left row_finished = - 144 \<and> Status row_finished = Termine \<and>
   Task row_finished = ascii ''['' @ Termine @ ascii ''] Fourniture de poulet bio''"
proof -
  have d: "Days_Left row_finished = - 144"
    by (simp add: row_finished_def sample_row_def)
  with status_and_title[OF try_body_item_finished]
  have "Status row_finished = Termine" by simp
  moreover have "Task row_finished = ascii ''['' @ Termine @ ascii ''] Fourniture de poulet bio''"
    by (simp add: row_finished_def sample_row_def status_of_def)
  ultimately show ?thesis using d try_body_item_finished by simp
qed

lemma day_ns_pos: "0 < day_ns"
  by (simp add: day_ns_def)

lemma div_midnight_minus:
  fixes f t d :: int
  assumes "0 < d" and "f mod d = 0" and "t mod d \<noteq> 0"
  shows "(f - t) div d = f div d - t div d - 1"
proof -
  define a where "a = f div d"
  define b where "b = t div d"
  define m where "m = t mod d"
  have f: "f = a * d"
    using assms(2) div_mult_mod_eq[of f d] by (simp add: a_def)
  have t: "t = b * d + m"
    by (simp add: b_def m_def)
  have "0 \<le> m" and "m < d"
    using assms(1) by (simp_all add: m_def)
  with assms(3) have m: "0 < m" "m < d"
    by (simp_all add: m_def)
  have "f - t = (d - m) + (a - b - 1) * d"
    by (simp add: f t algebra_simps)
  then have "(f - t) div d = (d - m) div d + (a - b - 1)"
    using assms(1) by simp
  also have "(d - m) div d = 0"
    using m by simp
  finally show ?thesis
    by (simp add: a_def b_def)
qed

lemma div_from_midnight:
  fixes f t d :: int
  assumes "t mod d = 0"
  shows "(f - t) div d = f div d - t div d"
proof (cases "d = 0")
  case True
  then show ?thesis by simp
next
  case False
  define b where "b = t div d"
  have t: "t = b * d"
    using assms div_mult_mod_eq[of t d] by (simp add: b_def)
  have "(f - t) div d = (f + (- b) * d) div d"
    by (simp add: t)
  also have "\<dots> = f div d + (- b)"
    using div_mult_self1[OF False, of f "- b"] by (simp only: add.commute)
  finally show ?thesis by (simp add: b_def)
qed

text \<open>
  C4, as amended. For every item that normalizes, \<open>Days_Left\<close> is the floor of
  (finish - today) / 1 day, where \<open>today\<close> is the current instant with its time of
  day. When \<open>today\<close> is a midnight, that is the difference of the two day numbers; when
  \<open>today\<close> has a time of day and \<open>date_fin\<close> is a midnight, it is one less than that
  difference.
\<close>

theorem days_left_is_floor:
  assumes "try_body L today item = Inr (Some r)"
  shows "Days_Left r = \<lfloor>real_of_int (nanos (Finish r) - nanos today) / real_of_int day_ns\<rfloor> \<and>
         (nanos today mod day_ns = 0 \<longrightarrow>
            Days_Left r = nanos (Finish r) div day_ns - nanos today div day_ns) \<and>
         (nanos (Finish r) mod day_ns = 0 \<and> nanos today mod day_ns \<noteq> 0 \<longrightarrow>
            Days_Left r = nanos (Finish r) div day_ns - nanos today div day_ns - 1)"
proof -
  from assms obtain s e where "row_of_item L today item s e = Inr r"
    by (rule try_body_Some)
  then obtain days_left
    where "days_between e today = Inr days_left"
      and "Finish r = e" "Days_Left r = days_left"
    by (rule row_of_item_Inr) simp
  then have d: "Days_Left r = (nanos (Finish r) - nanos today) div day_ns"
    by (auto simp: days_between_def split: if_splits)
  then have "Days_Left r = \<lfloor>real_of_int (nanos (Finish r) - nanos today) / real_of_int day_ns\<rfloor>"
    by (simp only: floor_divide_of_int_eq)
  moreover have "Days_Left r = nanos (Finish r) div day_ns - nanos today div day_ns"
    if "nanos today mod day_ns = 0"
    using that d by (simp add: div_from_midnight)
  moreover have "Days_Left r = nanos (Finish r) div day_ns - nanos today div day_ns - 1"
    if "nanos (Finish r) mod day_ns = 0" and "nanos today mod day_ns \<noteq> 0"
    using that d day_ns_pos by (simp add: div_midnight_minus)
  ultimately show ?thesis by (intro conjI impI) (assumption | elim conjE)+
qed

lemma try_body_item_tomorrow_midnight:
  "try_body sample_lib today_midnight item_tomorrow =
     Inr (Some (sample_row 19876 1 (ascii ''Co A'') (JList []) {#}))"
  by (simp add: sample_eval item_tomorrow_def)

theorem days_left_is_floor_witness:
  "try_body sample_lib today_midnight item_tomorrow =
     Inr (Some (sample_row 19876 1 (ascii ''Co A'') (JList []) {#})) \<and>
   nanos today_midnight mod day_ns = 0 \<and>
   Days_Left (sample_row 19876 1 (ascii ''Co A'') (JList []) {#}) = 19876 - 19875 \<and>
   try_body sample_lib today_noon item_yesterday = Inr (Some row_yesterday) \<and>
   nanos (Finish row_yesterday) mod day_ns = 0 \<and> nanos today_noon mod day_ns \<noteq> 0 \<and>
   Days_Left row_yesterday = 19874 - 19875 - 1"
proof -
  have m: "nanos today_midnight mod day_ns = 0"
    by (simp add: today_midnight_def midnight_def)
  have n1: "nanos (Finish row_yesterday) mod day_ns = 0"
    and n2: "nanos today_noon mod day_ns \<noteq> 0"
    by (simp_all add: row_yesterday_def sample_row_def midnight_def today_noon_def day_ns_def)
  have v: "nanos (Finish (sample_row 19876 1 (ascii ''Co A'') (JList []) {#})) div day_ns = 19876"
    "nanos today_midnight div day_ns = 19875"
    "nanos (Finish row_yesterday) div day_ns = 19874"
    "nanos today_noon div day_ns = 19875"
    by (simp_all add: row_yesterday_def sample_row_def midnight_def today_midnight_def
          today_noon_def day_ns_def)
  from days_left_is_floor[OF try_body_item_tomorrow_midnight] m v
  have 1: "Days_Left (sample_row 19876 1 (ascii ''Co A'') (JList []) {#}) = 19876 - 19875"
    by simp
  from days_left_is_floor[OF try_body_item_yesterday] n1 n2 v
  have 2: "Days_Left row_yesterday = 19874 - 19875 - 1"
    by simp
  show ?thesis
    by (intro conjI)
       (rule try_body_item_tomorrow_midnight try_body_item_yesterday m n1 n2 1 2)+
qed

text \<open>
  C4 as stated fails: at noon of 2024-06-01 an item ending on 2024-06-02, one day ahead,
  has 0 days left, and one ending on 2024-05-31, one day back, has -2.
\<close>

theorem days_left_off_by_one_counterexample:
  "try_body sample_lib today_noon item_tomorrow = Inr (Some row_tomorrow) \<and>
   nanos (Finish row_tomorrow) div day_ns = nanos today_noon div day_ns + 1 \<and>
   Days_Left row_tomorrow = 0 \<and>
   try_body sample_lib today_noon item_yesterday = Inr (Some row_yesterday) \<and>
   nanos (Finish row_yesterday) div day_ns = nanos today_noon div day_ns - 1 \<and>
   Days_Left row_yesterday = - 2"
proof -
  have "nanos (Finish row_tomorrow) div day_ns = nanos today_noon div day_ns + 1"
    and "Days_Left row_tomorrow = 0"
    and "nanos (Finish row_yesterday) div day_ns = nanos today_noon div day_ns - 1"
    and "Days_Left row_yesterday = - 2"
    by (simp_all add: row_tomorrow_def row_yesterday_def sample_row_def midnight_def
          today_noon_def day_ns_def)
  with try_body_item_tomorrow try_body_item_yesterday show ?thesis
    by blast
qed

subsection \<open>Awardees\<close>

lemma str_items_Inr: "str_items xs = Inr ss \<Longrightarrow> xs = map JStr ss"
  by (induction xs arbitrary: ss rule: str_items.induct) (auto simp: and_then_eq_Inr)

text \<open>
  C3, as amended. For every item that normalizes, the row keeps the awardees as the one
  string \<open>Titulaire\<close>: the members of \<open>titulaire\<close> joined by a comma and a space
  when it is a list (of strings), and \<open>str(titulaire)\<close> otherwise.
\<close>

theorem titulaire_kept_as_one_string:
  assumes "try_body L today item = Inr (Some r)"
  shows "\<exists>titulaire. subscript item (ascii ''titulaire'') = Inr titulaire \<and>
           (case titulaire of
              JList xs \<Rightarrow> (\<exists>names. xs = map JStr names \<and> Titulaire r = join (ascii '', '') names)
            | _ \<Rightarrow> Titulaire r = str_of L titulaire)"
proof -
  from assms obtain s e where "row_of_item L today item s e = Inr r"
    by (rule try_body_Some)
  then obtain titulaire titulaires
    where t: "subscript item (ascii ''titulaire'') = Inr titulaire"
      and ts: "titulaires_of L titulaire = Inr titulaires"
      and r: "Titulaire r = titulaires"
    by (rule row_of_item_Inr) simp
  from ts r have "case titulaire of
              JList xs \<Rightarrow> (\<exists>names. xs = map JStr names \<and> Titulaire r = join (ascii '', '') names)
            | _ \<Rightarrow> Titulaire r = str_of L titulaire"
    by (cases titulaire)
       (auto simp: titulaires_of_def py_join_def and_then_eq_Inr dest: str_items_Inr)
  with t show ?thesis by blast
qed

theorem titulaire_kept_as_one_string_witness:
  "try_body sample_lib today_noon item_two_awardees = Inr (Some row_awardees) \<and>
   subscript item_two_awardees (ascii ''titulaire'') =
     Inr (JList (map JStr [ascii ''Co A'', ascii ''Co B''])) \<and>
   Titulaire row_awardees = join (ascii '', '') [ascii ''Co A'', ascii ''Co B'']"
proof -
  have s: "subscript item_two_awardees (ascii ''titulaire'') =
     Inr (JList (map JStr [ascii ''Co A'', ascii ''Co B'']))"
    by (simp add: item_two_awardees_def sample_item_def ascii_def)
  from titulaire_kept_as_one_string[OF try_body_item_two_awardees] s
  have "Titulaire row_awardees = join (ascii '', '') [ascii ''Co A'', ascii ''Co B'']"
    by auto
  with s try_body_item_two_awardees show ?thesis by blast
qed

text \<open>
  C3 as stated fails: the row does not retain the list of awardees. The one awardee
  \<open>Co A, Co B\<close> and the two awardees \<open>Co A\<close> and \<open>Co B\<close> give the same row.
\<close>

theorem awardee_list_not_retained_counterexample:
  "try_body sample_lib today_noon item_one_awardee = Inr (Some row_awardees) \<and>
   try_body sample_lib today_noon item_two_awardees = Inr (Some row_awardees) \<and>
   subscript item_one_awardee (ascii ''titulaire'') = Inr (JList [JStr (ascii ''Co A, Co B'')]) \<and>
   subscript item_two_awardees (ascii ''titulaire'') =
     Inr (JList [JStr (ascii ''Co A''), JStr (ascii ''Co B'')])"
  by (simp add: try_body_item_one_awardee try_body_item_two_awardees)
     (simp add: item_one_awardee_def item_two_awardees_def sample_item_def ascii_def)

section \<open>Properties of the filters and the statistics\<close>

lemma filter_singleton_iff: "filter P [r] = [r] \<longleftrightarrow> P r"
  by simp

lemma filter_by_singleton: "filter P df = filter (\<lambda>r. filter P [r] = [r]) df"
  by (simp only: filter_singleton_iff)

lemma filter_expiration_pointwise:
  "filter_expiration e df = filter (\<lambda>r. filter_expiration e [r] = [r]) df"
proof -
  consider (all) "e = ascii ''Tous les AO''"
    | (m3) "e \<noteq> ascii ''Tous les AO''" "sublist (ascii ''3 mois'') e"
    | (m6) "e \<noteq> ascii ''Tous les AO''" "\<not> sublist (ascii ''3 mois'') e"
        "sublist (ascii ''6 mois'') e"
    | (y1) "e \<noteq> ascii ''Tous les AO''" "\<not> sublist (ascii ''3 mois'') e"
        "\<not> sublist (ascii ''6 mois'') e" "sublist (ascii ''1 an'') e"
    | (y15) "e \<noteq> ascii ''Tous les AO''" "\<not> sublist (ascii ''3 mois'') e"
        "\<not> sublist (ascii ''6 mois'') e" "\<not> sublist (ascii ''1 an'') e"
        "sublist (ascii ''1 an et demi'') e"
    | (y2) "e \<noteq> ascii ''Tous les AO''" "\<not> sublist (ascii ''3 mois'') e"
        "\<not> sublist (ascii ''6 mois'') e" "\<not> sublist (ascii ''1 an'') e"
        "\<not> sublist (ascii ''1 an et demi'') e" "sublist (ascii ''2 ans'') e"
    | (none) "e \<noteq> ascii ''Tous les AO''" "\<not> sublist (ascii ''3 mois'') e"
        "\<not> sublist (ascii ''6 mois'') e" "\<not> sublist (ascii ''1 an'') e"
        "\<not> sublist (ascii ''1 an et demi'') e" "\<not> sublist (ascii ''2 ans'') e"
    by blast
  then show ?thesis
    by cases (simp_all add: filter_expiration_def)
qed

lemma expiration_3_mois:
  "filter_expiration (ascii ''Se termine dans 3 mois'') df = filter (\<lambda>r. Days_Left r \<le> 90) df"
proof -
  have "ascii ''Se termine dans 3 mois'' \<noteq> ascii ''Tous les AO''"
    and "sublist (ascii ''3 mois'') (ascii ''Se termine dans 3 mois'')"
    by (simp_all add: ascii_def sublist_code)
  then show ?thesis by (simp add: filter_expiration_def)
qed

lemma expiration_1_an_et_demi:
  "filter_expiration (ascii ''Se termine dans 1 an et demi'') df =
     filter (\<lambda>r. Days_Left r \<le> 365) df"
proof -
  have "ascii ''Se termine dans 1 an et demi'' \<noteq> ascii ''Tous les AO''"
    and "\<not> sublist (ascii ''3 mois'') (ascii ''Se termine dans 1 an et demi'')"
    and "\<not> sublist (ascii ''6 mois'') (ascii ''Se termine dans 1 an et demi'')"
    and "sublist (ascii ''1 an'') (ascii ''Se termine dans 1 an et demi'')"
    by (simp_all add: ascii_def sublist_code)
  then show ?thesis by (simp add: filter_expiration_def)
qed

text \<open>
  C1. The horizon filter keeps a row exactly when its \<open>Days_Left\<close> is at most the
  threshold of the selected option, 547 for one year and a half. The code does not: the
  option \<open>Se termine dans 1 an et demi\<close> contains \<open>1 an\<close>, which the chain tests first,
  so that option filters at 365 days and drops a row with 400 days left.
\<close>

theorem one_and_a_half_years_filters_at_365:
  "filter_expiration (ascii ''Se termine dans 1 an et demi'') df =
     filter (\<lambda>r. Days_Left r \<le> 365) df \<and>
   ascii ''Se termine dans 1 an et demi'' \<in> set expiration_options \<and>
   Days_Left (row_ending_in 400) = 400 \<and>
   filter_expiration (ascii ''Se termine dans 1 an et demi'') [row_ending_in 400] = []"
proof -
  have d: "Days_Left (row_ending_in 400) = 400"
    by (simp add: row_ending_in_def sample_row_def)
  have o: "ascii ''Se termine dans 1 an et demi'' \<in> set expiration_options"
    by (simp add: expiration_options_def)
  from d have "filter_expiration (ascii ''Se termine dans 1 an et demi'') [row_ending_in 400] = []"
    by (simp add: expiration_1_an_et_demi)
  with d o expiration_1_an_et_demi show ?thesis by blast
qed

lemma filter_acheteurs_rows:
  "filter_acheteurs selected fr = Inr fr' \<Longrightarrow>
     frame_rows fr' =
       filter (\<lambda>r. selected = [] \<or> Resource r \<in> set selected) (frame_rows fr)"
  by (cases fr) (auto simp: filter_acheteurs_def bool_mask_def split: if_splits)

lemma filter_titulaires_rows:
  "filter_titulaires selected fr = Inr fr' \<Longrightarrow>
     frame_rows fr' =
       filter (\<lambda>r. selected = [] \<or>
                 (\<exists>t\<in>set (py_split 44 (Titulaire r)). strip t \<in> set selected)) (frame_rows fr)"
  by (cases fr) (auto simp: filter_titulaires_def apply_mask_def list_ex_iff split: if_splits)

lemma filter_departments_rows:
  "filter_departments selected fr = Inr fr' \<Longrightarrow>
     frame_rows fr' =
       filter (\<lambda>r. selected = [] \<or> (\<exists>dept\<in>set (Departments r). dept \<in> set selected))
         (frame_rows fr)"
  by (cases fr) (auto simp: filter_departments_def apply_mask_def list_ex_iff split: if_splits)

lemma filter_expiration_idle:
  "\<not> reads_days_left expiration \<Longrightarrow> filter_expiration expiration rs = rs"
  by (auto simp: reads_days_left_def filter_expiration_def)

lemma expiration_step_rows:
  "expiration_step expiration fr = Inr fr' \<Longrightarrow>
     frame_rows fr' = filter_expiration expiration (frame_rows fr)"
proof (cases "reads_days_left expiration")
  case True
  assume "expiration_step expiration fr = Inr fr'"
  with True show ?thesis
    by (cases fr) (auto simp: expiration_step_def)
next
  case False
  assume "expiration_step expiration fr = Inr fr'"
  with False show ?thesis
    by (simp add: expiration_step_def filter_expiration_idle)
qed

lemma filter_status_rows:
  "filter_status selected fr = Inr fr' \<Longrightarrow>
     frame_rows fr' = filter (\<lambda>r. selected = [] \<or> Status r \<in> set selected) (frame_rows fr)"
  by (cases fr) (auto simp: filter_status_def bool_mask_def split: if_splits)

lemma filter_categories_rows:
  "filter_categories selected fr = Inr fr' \<Longrightarrow>
     frame_rows fr' =
       filter (\<lambda>r. selected = [] \<or> (\<exists>cat\<in>#Categories r. cat \<in> set selected)) (frame_rows fr)"
  by (cases fr) (auto simp: filter_categories_def apply_mask_def split: if_splits)

text \<open>
  When the filters run to their end, the rows left are those that pass every
  dimension, each dimension being passed when nothing is selected in it or when one of
  the selected values matches.
\<close>

lemma main_filters_rows:
  assumes "main_filters sel df = Inr filtered_df"
  shows "frame_rows filtered_df =
     filter (\<lambda>r.
       (selected_acheteurs sel = [] \<or> Resource r \<in> set (selected_acheteurs sel)) \<and>
       (selected_titulaires sel = [] \<or>
          (\<exists>t\<in>set (py_split 44 (Titulaire r)). strip t \<in> set (selected_titulaires sel))) \<and>
       (selected_departments sel = [] \<or>
          (\<exists>dept\<in>set (Departments r). dept \<in> set (selected_departments sel))) \<and>
       filter_expiration (expiration_filter sel) [r] = [r] \<and>
       (status_filter sel = [] \<or> Status r \<in> set (status_filter sel)) \<and>
       (selected_categories sel = [] \<or>
          (\<exists>cat\<in>#Categories r. cat \<in> set (selected_categories sel)))) df"
proof -
  from assms obtain f1 f2 f3 f4 f5
    where 1: "filter_acheteurs (selected_acheteurs sel) (Rows df) = Inr f1"
      and 2: "filter_titulaires (selected_titulaires sel) f1 = Inr f2"
      and 3: "filter_departments (selected_departments sel) f2 = Inr f3"
      and 4: "expiration_step (expiration_filter sel) f3 = Inr f4"
      and 5: "filter_status (status_filter sel) f4 = Inr f5"
      and 6: "filter_categories (selected_categories sel) f5 = Inr filtered_df"
    unfolding main_filters_def and_then_eq_Inr by blast
  note r1 = filter_acheteurs_rows[OF 1, unfolded frame_rows.simps]
  note r2 = filter_titulaires_rows[OF 2]
  note r3 = filter_departments_rows[OF 3]
  have r4: "frame_rows f4 =
      filter (\<lambda>r. filter_expiration (expiration_filter sel) [r] = [r]) (frame_rows f3)"
    by (subst filter_expiration_pointwise[symmetric]) (rule expiration_step_rows[OF 4])
  note r5 = filter_status_rows[OF 5]
  note r6 = filter_categories_rows[OF 6]
  show ?thesis
    by (simp only: r6 r5 r4 r3 r2 r1 filter_filter conj_assoc)
qed

text \<open>
  With only the status \<open>En cours\<close> and the horizon of three months selected, the filters
  always run to their end, and the result is the rows that are \<open>En cours\<close> with at most
  90 days left.
\<close>

lemma main_filters_status_and_horizon:
  assumes "selected_acheteurs sel = []" and "selected_titulaires sel = []"
    and "selected_departments sel = []" and "selected_categories sel = []"
    and "status_filter sel = [En_cours]"
    and "expiration_filter sel = ascii ''Se termine dans 3 mois''"
  shows "main_filters sel df =
           Inr (Rows (filter (\<lambda>r. Status r = En_cours \<and> Days_Left r \<le> 90) df))"
proof -
  have "reads_days_left (ascii ''Se termine dans 3 mois'')"
    by (simp add: reads_days_left_def ascii_def sublist_code)
  with assms show ?thesis
    by (simp add: main_filters_def filter_acheteurs_def filter_titulaires_def
          filter_departments_def filter_categories_def filter_status_def
          expiration_step_def bool_mask_def expiration_3_mois conj_commute)
qed

text \<open>
  C5. The filtered frame holds the rows that pass every active dimension, and none
  when no row passes them all. The code does not return it for every selection: once
  the buyer and the awardee filters have left no row, the mask of the department
  filter is not boolean, the frame loses its columns, and the status filter raises
  \<open>KeyError\<close> when it reads \<open>Status\<close>.
\<close>

theorem filters_raise_on_empty_intermediate_frame:
  "main_filters crossed_selection [row_ville_x, row_ville_y] =
     Inl (KeyError (ascii ''Status'')) \<and>
   filter (\<lambda>r.
       Resource r \<in> set (selected_acheteurs crossed_selection) \<and>
       (\<exists>t\<in>set (py_split 44 (Titulaire r)).
          strip t \<in> set (selected_titulaires crossed_selection)) \<and>
       (\<exists>dept\<in>set (Departments r). dept \<in> set (selected_departments crossed_selection)) \<and>
       Status r \<in> set (status_filter crossed_selection)) [row_ville_x, row_ville_y] = []"
proof -
  have x: "Resource row_ville_x = JStr (ascii ''Ville X'')"
    "py_split 44 (Titulaire row_ville_x) = [ascii ''Co A'']"
    "Departments row_ville_x = [ascii ''75'']"
    by (simp_all add: row_ville_x_def row_ending_in_def sample_row_def py_split_def ascii_def)
  have y: "Resource row_ville_y = JStr (ascii ''Ville Y'')"
    "py_split 44 (Titulaire row_ville_y) = [ascii ''Co B'']"
    "Departments row_ville_y = [ascii ''13'']"
    by (simp_all add: row_ville_y_def py_split_def ascii_def)
  have t: "strip (ascii ''Co A'') = ascii ''Co A''" "strip (ascii ''Co B'') = ascii ''Co B''"
    by (simp_all add: strip_def is_space_def ascii_def)
  have n: "ascii ''Co A'' \<noteq> ascii ''Co B''" "ascii ''Ville Y'' \<noteq> ascii ''Ville X''"
    by (simp_all add: ascii_def)
  have s: "selected_acheteurs crossed_selection = [JStr (ascii ''Ville X'')]"
    "selected_titulaires crossed_selection = [ascii ''Co B'']"
    "selected_departments crossed_selection = [ascii ''75'']"
    "expiration_filter crossed_selection = ascii ''Tous les AO''"
    "status_filter crossed_selection = [En_cours]"
    "selected_categories crossed_selection = []"
    by (simp_all add: crossed_selection_def)
  have 1: "filter_acheteurs [JStr (ascii ''Ville X'')] (Rows [row_ville_x, row_ville_y]) =
      Inr (Rows [row_ville_x])"
    by (simp add: filter_acheteurs_def bool_mask_def x y n)
  have 2: "filter_titulaires [ascii ''Co B''] (Rows [row_ville_x]) = Inr (Rows [])"
    by (simp add: filter_titulaires_def apply_mask_def x t n)
  have 3: "filter_departments [ascii ''75''] (Rows []) = Inr No_columns"
    by (simp add: filter_departments_def apply_mask_def)
  have 4: "expiration_step (ascii ''Tous les AO'') No_columns = Inr No_columns"
    by (simp add: expiration_step_def reads_days_left_def)
  have 5: "filter_status [En_cours] No_columns = Inl (KeyError (ascii ''Status''))"
    by (simp add: filter_status_def)
  have run: "main_filters crossed_selection [row_ville_x, row_ville_y] =
     Inl (KeyError (ascii ''Status''))"
    by (simp add: main_filters_def s 1 2 3 4 5)
  have none: "filter (\<lambda>r.
       Resource r \<in> set (selected_acheteurs crossed_selection) \<and>
       (\<exists>t\<in>set (py_split 44 (Titulaire r)).
          strip t \<in> set (selected_titulaires crossed_selection)) \<and>
       (\<exists>dept\<in>set (Departments r). dept \<in> set (selected_departments crossed_selection)) \<and>
       Status r \<in> set (status_filter crossed_selection)) [row_ville_x, row_ville_y] = []"
    by (simp add: s x y t n)
  from run none show ?thesis ..
qed

text \<open>
  C8. When the filtered frame has a row, the metrics are computed, and the metric of the
  records ending within three months is the number of rows with \<open>Days_Left\<close> from 0 to 90, both included; the rows
  with negative \<open>Days_Left\<close> are not counted, whereas the horizon filter of three months
  keeps them.
\<close>

theorem expiring_soon_counts_0_to_90:
  assumes "filtered_df \<noteq> []"
  shows "\<exists>st. main_stats filtered_df = Some st \<and>
         expiring_soon st =
           card {i. i < length filtered_df \<and> 0 \<le> Days_Left (filtered_df ! i) \<and>
                    Days_Left (filtered_df ! i) \<le> 90} \<and>
         expiring_soon st =
           length (filter (\<lambda>r. Days_Left r \<le> 90) (filter (\<lambda>r. 0 \<le> Days_Left r) filtered_df)) \<and>
         length (filter_expiration (ascii ''Se termine dans 3 mois'') filtered_df) =
           expiring_soon st + length (filter (\<lambda>r. Days_Left r < 0) filtered_df)"
proof -
  from assms obtain st where st: "main_stats filtered_df = Some st"
    by (simp add: main_stats_def)
  then have e: "expiring_soon st =
             length (filter (\<lambda>r. Days_Left r \<le> 90 \<and> Days_Left r \<ge> 0) filtered_df)"
    by (auto simp: main_stats_def split: if_splits)
  have 1: "expiring_soon st =
           card {i. i < length filtered_df \<and> 0 \<le> Days_Left (filtered_df ! i) \<and>
                    Days_Left (filtered_df ! i) \<le> 90}"
    unfolding e length_filter_conv_card by (rule arg_cong[where f = card]) auto
  have 2: "expiring_soon st =
           length (filter (\<lambda>r. Days_Left r \<le> 90) (filter (\<lambda>r. 0 \<le> Days_Left r) filtered_df))"
    unfolding e by (simp add: conj_commute)
  have "length (filter (\<lambda>r. Days_Left r \<le> 90) xs) =
          length (filter (\<lambda>r. Days_Left r \<le> 90 \<and> Days_Left r \<ge> 0) xs) +
          length (filter (\<lambda>r. Days_Left r < 0) xs)" for xs :: "row list"
    by (induction xs) auto
  then have 3: "length (filter_expiration (ascii ''Se termine dans 3 mois'') filtered_df) =
           expiring_soon st + length (filter (\<lambda>r. Days_Left r < 0) filtered_df)"
    unfolding e expiration_3_mois by simp
  from st 1 2 3 show ?thesis by blast
qed

theorem expiring_soon_counts_0_to_90_witness:
  "map_option expiring_soon
     (main_stats [row_ending_in 10, row_ending_in (- 10), row_ending_in 95,
                  row_ending_in 90, row_ending_in 0]) = Some 3 \<and>
   length (filter_expiration (ascii ''Se termine dans 3 mois'')
     [row_ending_in 10, row_ending_in (- 10), row_ending_in 95,
      row_ending_in 90, row_ending_in 0]) = 4"
proof -
  let ?df = "[row_ending_in 10, row_ending_in (- 10), row_ending_in 95,
              row_ending_in 90, row_ending_in 0]"
  have v: "Days_Left (row_ending_in d) = d" for d
    by (simp add: row_ending_in_def sample_row_def)
  have "?df \<noteq> []" by simp
  from expiring_soon_counts_0_to_90[OF this]
  obtain st where st: "main_stats ?df = Some st"
    and "expiring_soon st =
          length (filter (\<lambda>r. Days_Left r \<le> 90) (filter (\<lambda>r. 0 \<le> Days_Left r) ?df))"
    and l: "length (filter_expiration (ascii ''Se termine dans 3 mois'') ?df) =
           expiring_soon st + length (filter (\<lambda>r. Days_Left r < 0) ?df)"
    by blast
  then have 3: "expiring_soon st = 3"
    by (simp add: v)
  with l have "length (filter_expiration (ascii ''Se termine dans 3 mois'') ?df) = 4"
    by (simp add: v)
  with st 3 show ?thesis by simp
qed

end
